theory Spec2Isabelle
  imports Main "HOL-Library.AList"
begin

section \<open>Values, dictionaries and timestamps\<close>

text \<open>
  The tap handles JSON-like Python values: decoded rows, coerced records and the
  serialised messages are dictionaries from field names to values. A Python dictionary
  keeps its keys in insertion order; assigning to a key that is present replaces the value
  in place and assigning to a new key appends it. An association list with
  \<open>AList.update\<close> behaves exactly so, and lookup is \<open>map_of\<close>.
\<close>

datatype pyval =
    PNone
  | PBool bool
  | PInt int
  | PStr string
  | PList "pyval list"
  | PDict "(string \<times> pyval) list"

type_synonym dict = "(string \<times> pyval) list"

definition dict_get :: "string \<Rightarrow> dict \<Rightarrow> pyval option" where
  "dict_get k d = map_of d k"

definition dict_set :: "string \<Rightarrow> pyval \<Rightarrow> dict \<Rightarrow> dict" where
  "dict_set k v d = AList.update k v d"

text \<open>\<^verbatim>\<open>{**a, **b}\<close>: the items of \<open>a\<close>, then every item of \<open>b\<close> assigned in turn.\<close>

definition dict_merge :: "dict \<Rightarrow> dict \<Rightarrow> dict" where
  "dict_merge a b = foldl (\<lambda>d (k, v). dict_set k v d) a b"

text \<open>
  A timezone-aware \<^verbatim>\<open>datetime\<close> as Python holds it: the wall-clock fields (year to
  microsecond, counted here as microseconds since 1970-01-01T00:00:00 on that clock), the
  offset from UTC its tzinfo gives for them, in microseconds, and the identity of the
  tzinfo object. The storage client only produces aware datetimes, so the \<^verbatim>\<open>TypeError\<close>
  of comparing a naive with an aware datetime cannot arise.
\<close>

record datetime =
  wall_us :: int
  utcoffset_us :: int
  tzinfo :: nat

text \<open>The instant: \<^verbatim>\<open>self - _EPOCH\<close> in microseconds, which takes the offset into account.\<close>

definition epoch_us :: "datetime \<Rightarrow> int" where
  "epoch_us d = wall_us d - utcoffset_us d"

text \<open>
  \<^verbatim>\<open>a < b\<close> on aware datetimes: Python compares the wall-clock fields when both carry the
  same tzinfo object or equal offsets, and the instants otherwise. In a zone with daylight
  saving two datetimes of one tzinfo object are therefore ordered by their wall clocks
  even where this reverses their instants.
\<close>

definition datetime_lt :: "datetime \<Rightarrow> datetime \<Rightarrow> bool" where
  "datetime_lt a b =
     (if tzinfo a = tzinfo b \<or> utcoffset_us a = utcoffset_us b
      then wall_us a < wall_us b
      else epoch_us a < epoch_us b)"

text \<open>
  \<^verbatim>\<open>int(last_modified.timestamp())\<close>. For an aware datetime \<^verbatim>\<open>timestamp()\<close> is the true
  division of the microseconds since the epoch by \<open>10^6\<close>: the double nearest to the
  quotient, ties to the even significand. \<^verbatim>\<open>int\<close> then truncates towards zero. The
  double has a significand of 53 bits, so for \<open>2^e \<le> q < 2^(e+1)\<close> it is the quotient
  rounded to a multiple of \<open>2^(e-52)\<close>.
\<close>

fun bit_length :: "nat \<Rightarrow> nat" where
  "bit_length n = (if n = 0 then 0 else Suc (bit_length (n div 2)))"

text \<open>The integer nearest to \<open>num / den\<close>, ties to even (\<open>0 \<le> num\<close>, \<open>0 < den\<close>).\<close>

definition round_half_even :: "int \<Rightarrow> int \<Rightarrow> int" where
  "round_half_even num den =
     (let fl = num div den; r = num mod den
      in if 2 * r < den then fl
         else if den < 2 * r then fl + 1
         else if even fl then fl else fl + 1)"

text \<open>
  The integer part of the double nearest to \<open>a / 10^6\<close>, for \<open>0 \<le> a\<close>. With
  \<open>e = \<lfloor>log\<^sub>2 (a / 10^6)\<rfloor>\<close>, which is at least \<open>-20\<close> for \<open>a \<ge> 1\<close>, the significand
  is the quotient scaled by \<open>2^s\<close>, \<open>s = 52 - e\<close>, and rounded.
\<close>

definition nearest_double_trunc :: "int \<Rightarrow> int" where
  "nearest_double_trunc a =
     (if a = 0 then 0
      else
        (let e = int (bit_length (nat (a * 2 ^ 20 div 1000000))) - 1 - 20;
             s = 52 - e
         in if 0 \<le> s
            then round_half_even (a * 2 ^ nat s) 1000000 div 2 ^ nat s
            else round_half_even a (1000000 * 2 ^ nat (- s)) * 2 ^ nat (- s)))"

definition timestamp_int :: "datetime \<Rightarrow> int" where
  "timestamp_int d =
     (if 0 \<le> epoch_us d then nearest_double_trunc (epoch_us d)
      else - nearest_double_trunc (- epoch_us d))"

section \<open>Faults, collaborators and the world\<close>

text \<open>
  Every exception is a value. \<open>KeyError\<close> is what a missing dictionary key raises,
  \<open>ModuleNotFoundError\<close> what \<^verbatim>\<open>importlib.import_module\<close> raises for a module it cannot
  locate, and \<open>Raised\<close> stands for any other exception of a collaborator.
\<close>

datatype fault =
    KeyError string
  | ModuleNotFoundError string
  | Raised string

type_synonym config = "string \<rightharpoonup> string"
type_synonym table_spec = "string \<rightharpoonup> string"
type_synonym stream = "string \<rightharpoonup> pyval"
type_synonym raw_stream = string

text \<open>The entries of the listing: \<^verbatim>\<open>{"key": ..., "last_modified": ...}\<close>.\<close>

record s3_file =
  key :: string
  last_modified :: datetime

text \<open>
  What iterating over a row iterator does: it ends, it yields a row and goes on, or it
  raises. The row source of one file is finite.
\<close>

datatype row_iter =
    Stop
  | Yield dict row_iter
  | Raise fault

text \<open>An encoding module is used through its \<^verbatim>\<open>get_row_iterator\<close> only.\<close>

type_synonym encoding_module = "raw_stream \<Rightarrow> table_spec \<Rightarrow> fault + row_iter"

text \<open>
  The collaborators this module calls and the constants it reads from them; none of them
  is defined in \<^verbatim>\<open>sync.py\<close>, so they are parameters:
  \<^item> \<^verbatim>\<open>utils.strptime_with_tz\<close> and \<^verbatim>\<open>datetime.isoformat\<close>;
  \<^item> \<^verbatim>\<open>s3.get_input_files_for_table\<close>, \<^verbatim>\<open>s3.get_file_handle\<close> (the handle is identified
    with its \<^verbatim>\<open>_raw_stream\<close>) and the three \<^verbatim>\<open>s3.SDC_SOURCE_*_COLUMN\<close> names;
  \<^item> \<^verbatim>\<open>importlib.import_module\<close> and the default module \<^verbatim>\<open>singer_encodings.csv\<close>;
  \<^item> \<^verbatim>\<open>Transformer().transform\<close>, composed with \<^verbatim>\<open>metadata.to_map\<close> on its last argument.
\<close>

record env =
  strptime_with_tz :: "string \<Rightarrow> fault + datetime"
  isoformat :: "datetime \<Rightarrow> string"
  get_input_files_for_table :: "config \<Rightarrow> table_spec \<Rightarrow> datetime \<Rightarrow> fault + s3_file list"
  get_file_handle :: "config \<Rightarrow> string \<Rightarrow> fault + raw_stream"
  SDC_SOURCE_BUCKET_COLUMN :: string
  SDC_SOURCE_FILE_COLUMN :: string
  SDC_SOURCE_LINENO_COLUMN :: string
  import_module :: "string \<Rightarrow> fault + encoding_module"
  singer_encodings_csv :: encoding_module
  transform :: "dict \<Rightarrow> pyval \<Rightarrow> pyval \<Rightarrow> fault + dict"

text \<open>
  The state object is a dictionary kept by the \<^verbatim>\<open>singer\<close> library, which is not part of
  this repository. The spec describes it as bookmark storage keyed by table name with a
  field \<^verbatim>\<open>modified_since\<close> holding an ISO-8601 string.
\<close>

type_synonym state = "string \<rightharpoonup> (string \<rightharpoonup> string)"

text \<open>
  Modelled from the spec: \<^verbatim>\<open>singer.get_bookmark\<close>, missing from the sources; it reads one
  field of one table's bookmarks and gives nothing when the table or the field is absent.
\<close>

definition get_bookmark :: "state \<Rightarrow> string \<Rightarrow> string \<Rightarrow> string option" where
  "get_bookmark s tap_stream_id k =
     (case s tap_stream_id of None \<Rightarrow> None | Some bookmarks \<Rightarrow> bookmarks k)"

text \<open>
  Modelled from the spec: \<^verbatim>\<open>singer.write_bookmark\<close>, missing from the sources; it sets one
  field of one table's bookmarks, creating the table's entry when it is absent, and leaves
  every other entry as it is.
\<close>

definition write_bookmark :: "state \<Rightarrow> string \<Rightarrow> string \<Rightarrow> string \<Rightarrow> state" where
  "write_bookmark s tap_stream_id k val =
     s(tap_stream_id \<mapsto>
        (case s tap_stream_id of None \<Rightarrow> Map.empty | Some bookmarks \<Rightarrow> bookmarks)(k \<mapsto> val))"

text \<open>
  What the module writes: record messages and state messages on the output channel
  (\<^verbatim>\<open>singer.write_message\<close>, \<^verbatim>\<open>singer.write_state\<close>) and lines on the logger.
\<close>

datatype out_message =
    RECORD dict
  | STATE state

datatype log_line =
    Syncing_table string
  | Getting_files_modified_since datetime
  | Wrote_records nat string
  | Syncing_file string
  | Failed_to_load_encoding_module string

datatype log_entry =
    Info log_line
  | Warning log_line

text \<open>
  The world the sync runs in: the state object (a mutable dictionary shared with the
  caller, so its content survives a fault), the output channel, the log, and the names
  \<^verbatim>\<open>importlib.import_module\<close> was called with, in call order.
\<close>

record world =
  st :: state
  out :: "out_message list"
  log :: "log_entry list"
  imports_requested :: "string list"

definition write_message :: "dict \<Rightarrow> world \<Rightarrow> world" where
  "write_message m w = w\<lparr>out := out w @ [RECORD m]\<rparr>"

definition write_state :: "state \<Rightarrow> world \<Rightarrow> world" where
  "write_state s w = w\<lparr>out := out w @ [STATE s]\<rparr>"

definition LOGGER_info :: "log_line \<Rightarrow> world \<Rightarrow> world" where
  "LOGGER_info l w = w\<lparr>log := log w @ [Info l]\<rparr>"

definition LOGGER_warning :: "log_line \<Rightarrow> world \<Rightarrow> world" where
  "LOGGER_warning l w = w\<lparr>log := log w @ [Warning l]\<rparr>"

section \<open>The record message with its sequence\<close>

text \<open>
  Modelled from the spec: \<^verbatim>\<open>singer.RecordMessage\<close>, missing from the sources; this module
  builds it from a stream name and a record only.
\<close>

record record_message =
  rm_stream :: string
  rm_record :: dict

definition RecordMessage :: "string \<Rightarrow> dict \<Rightarrow> record_message" where
  "RecordMessage s r = \<lparr>rm_stream = s, rm_record = r\<rparr>"

text \<open>
  Modelled from the spec: \<^verbatim>\<open>singer.RecordMessage.asdict\<close>, missing from the sources; the
  spec gives the serialised message the keys \<^verbatim>\<open>type\<close> (\<^verbatim>\<open>"RECORD"\<close>), \<^verbatim>\<open>stream\<close> and
  \<^verbatim>\<open>record\<close>.
\<close>

definition RecordMessage_asdict :: "record_message \<Rightarrow> dict" where
  "RecordMessage_asdict m =
     [(''type'', PStr ''RECORD''), (''stream'', PStr (rm_stream m)), (''record'', PDict (rm_record m))]"

text \<open>
  \<^verbatim>\<open>class RecordMessageWithSequence\<close>: the constructor stores the message and the
  integer timestamp (in the attribute the source calls \<^verbatim>\<open>last_modified\<close>); \<open>asdict\<close>
  takes the dictionary of the message and assigns its key \<^verbatim>\<open>"sequence"\<close>.
\<close>

record record_message_with_sequence =
  message :: record_message
  seq_last_modified :: int

definition RecordMessageWithSequence :: "record_message \<Rightarrow> datetime \<Rightarrow> record_message_with_sequence" where
  "RecordMessageWithSequence m lm = \<lparr>message = m, seq_last_modified = timestamp_int lm\<rparr>"

definition asdict :: "record_message_with_sequence \<Rightarrow> dict" where
  "asdict self =
     (let result = RecordMessage_asdict (message self)
      in dict_set ''sequence'' (PInt (seq_last_modified self)) result)"

section \<open>Syncing one file\<close>

text \<open>The dictionary literal \<^verbatim>\<open>custom_columns\<close> and the merged \<^verbatim>\<open>rec\<close> of one row.\<close>

definition custom_columns :: "env \<Rightarrow> string \<Rightarrow> string \<Rightarrow> nat \<Rightarrow> dict" where
  "custom_columns e bucket s3_path records_synced =
     dict_set (SDC_SOURCE_LINENO_COLUMN e) (PInt (int records_synced + 2))
       (dict_set (SDC_SOURCE_FILE_COLUMN e) (PStr s3_path)
         (dict_set (SDC_SOURCE_BUCKET_COLUMN e) (PStr bucket) []))"

definition merged_rec :: "env \<Rightarrow> string \<Rightarrow> string \<Rightarrow> nat \<Rightarrow> dict \<Rightarrow> dict" where
  "merged_rec e bucket s3_path records_synced row =
     dict_merge row (custom_columns e bucket s3_path records_synced)"

text \<open>
  \<^verbatim>\<open>transformer.transform(rec, stream["schema"], metadata.to_map(stream["metadata"]))\<close>,
  its arguments evaluated from left to right.
\<close>

definition transform_rec :: "env \<Rightarrow> stream \<Rightarrow> dict \<Rightarrow> fault + dict" where
  "transform_rec e strm rec =
     (case strm ''schema'' of
        None \<Rightarrow> Inl (KeyError ''schema'')
      | Some schema \<Rightarrow>
          (case strm ''metadata'' of
             None \<Rightarrow> Inl (KeyError ''metadata'')
           | Some md \<Rightarrow> transform e rec schema md))"

text \<open>
  The loop \<^verbatim>\<open>for row in iterator\<close> of \<open>sync_table_file\<close>, started with the count
  \<open>records_synced\<close>. A fault of the iterator or of the transformer leaves the loop at once;
  the messages written so far stay written.
\<close>

fun sync_rows ::
  "env \<Rightarrow> string \<Rightarrow> string \<Rightarrow> string \<Rightarrow> stream \<Rightarrow> datetime \<Rightarrow> row_iter \<Rightarrow> nat \<Rightarrow> world
     \<Rightarrow> (fault + nat) \<times> world" where
  "sync_rows e bucket s3_path table_name strm lm Stop records_synced w = (Inr records_synced, w)"
| "sync_rows e bucket s3_path table_name strm lm (Raise x) records_synced w = (Inl x, w)"
| "sync_rows e bucket s3_path table_name strm lm (Yield row iterator) records_synced w =
     (case transform_rec e strm (merged_rec e bucket s3_path records_synced row) of
        Inl x \<Rightarrow> (Inl x, w)
      | Inr to_write \<Rightarrow>
          sync_rows e bucket s3_path table_name strm lm iterator (records_synced + 1)
            (write_message
               (asdict (RecordMessageWithSequence (RecordMessage table_name to_write) lm)) w))"

text \<open>
  Choosing the encoding module: the default, unless the configuration names another one;
  then that one is imported, and only \<open>ModuleNotFoundError\<close> is caught.
\<close>

definition resolve_encoding_module :: "env \<Rightarrow> config \<Rightarrow> world \<Rightarrow> (fault + encoding_module) \<times> world" where
  "resolve_encoding_module e cfg w =
     (case cfg ''encoding_module'' of
        None \<Rightarrow> (Inr (singer_encodings_csv e), w)
      | Some name \<Rightarrow>
          (let w' = w\<lparr>imports_requested := imports_requested w @ [name]\<rparr>
           in case import_module e name of
                Inr m \<Rightarrow> (Inr m, w')
              | Inl (ModuleNotFoundError x) \<Rightarrow>
                  (Inr (singer_encodings_csv e),
                   LOGGER_warning (Failed_to_load_encoding_module name) w')
              | Inl x \<Rightarrow> (Inl x, w')))"

text \<open>
  \<open>sync_table_file\<close>. The call \<^verbatim>\<open>csv.field_size_limit(sys.maxsize)\<close> configures the
  parser of the default module and has no other effect on what this module does.
\<close>

definition sync_table_file ::
  "env \<Rightarrow> config \<Rightarrow> string \<Rightarrow> table_spec \<Rightarrow> stream \<Rightarrow> datetime \<Rightarrow> world \<Rightarrow> (fault + nat) \<times> world" where
  "sync_table_file e cfg s3_path tspec strm lm w =
     (let w1 = LOGGER_info (Syncing_file s3_path) w in
      case cfg ''bucket'' of
        None \<Rightarrow> (Inl (KeyError ''bucket''), w1)
      | Some bucket \<Rightarrow>
      (case tspec ''table_name'' of
        None \<Rightarrow> (Inl (KeyError ''table_name''), w1)
      | Some table_name \<Rightarrow>
      (case get_file_handle e cfg s3_path of
        Inl x \<Rightarrow> (Inl x, w1)
      | Inr s3_file_handle \<Rightarrow>
      (case resolve_encoding_module e cfg w1 of
        (Inl x, w2) \<Rightarrow> (Inl x, w2)
      | (Inr encoding_module, w2) \<Rightarrow>
      (case encoding_module s3_file_handle tspec of
        Inl x \<Rightarrow> (Inl x, w2)
      | Inr iterator \<Rightarrow>
          sync_rows e bucket s3_path table_name strm lm iterator 0 w2)))))"

section \<open>Syncing one table\<close>

text \<open>
  \<^verbatim>\<open>singer.get_bookmark(state, table_name, "modified_since") or config["start_date"]\<close>,
  parsed: an absent or empty bookmark is falsy, and then the start date is required.
\<close>

definition modified_since_of :: "env \<Rightarrow> config \<Rightarrow> state \<Rightarrow> string \<Rightarrow> fault + datetime" where
  "modified_since_of e cfg s table_name =
     (case (case get_bookmark s table_name ''modified_since'' of
              Some b \<Rightarrow> if b \<noteq> [] then Inr b
                        else (case cfg ''start_date'' of
                                None \<Rightarrow> Inl (KeyError ''start_date'') | Some d \<Rightarrow> Inr d)
            | None \<Rightarrow> (case cfg ''start_date'' of
                         None \<Rightarrow> Inl (KeyError ''start_date'') | Some d \<Rightarrow> Inr d)) of
        Inl x \<Rightarrow> Inl x
      | Inr text \<Rightarrow> strptime_with_tz e text)"

text \<open>
  \<^verbatim>\<open>sorted(s3_files, key=lambda item: item["last_modified"])\<close>. Python's sort is stable
  and compares the keys with \<^verbatim>\<open><\<close> only. Wherever that comparison orders the keys of the
  list consistently, that is as some integer key does (\<open>compares_as\<close> below), a stable
  sort has one possible result, the one of the stable insertion sort below. A listing that
  mixes tzinfo objects can make the comparison cyclic; what Python returns then depends on
  the inner steps of its sort, which the insertion sort does not follow, and every theorem
  about the order of the files assumes \<open>compares_as\<close>.
\<close>

fun insort_lt :: "('a \<Rightarrow> 'a \<Rightarrow> bool) \<Rightarrow> 'a \<Rightarrow> 'a list \<Rightarrow> 'a list" where
  "insort_lt lt x [] = [x]"
| "insort_lt lt x (y # ys) = (if lt y x then y # insort_lt lt x ys else x # y # ys)"

definition sorted_files :: "s3_file list \<Rightarrow> s3_file list" where
  "sorted_files s3_files =
     foldr (insort_lt (\<lambda>a b. datetime_lt (last_modified a) (last_modified b))) s3_files []"

text \<open>
  Python's comparison orders the datetimes of the listing as the integer key \<open>k\<close>
  does. It does so with the wall clock for \<open>k\<close> when the datetimes share one tzinfo
  object or one offset, as the UTC datetimes of the storage client do.
\<close>

definition compares_as :: "(datetime \<Rightarrow> int) \<Rightarrow> s3_file list \<Rightarrow> bool" where
  "compares_as k s3_files \<longleftrightarrow>
     (\<forall>f\<in>set s3_files. \<forall>g\<in>set s3_files.
        datetime_lt (last_modified f) (last_modified g)
          = (k (last_modified f) < k (last_modified g)))"

text \<open>
  The loop over the sorted files, started with the count \<open>records_streamed\<close>: sync the
  file, and only when that returned, write the bookmark into the state object and
  write the state out.
\<close>

fun sync_files ::
  "env \<Rightarrow> config \<Rightarrow> table_spec \<Rightarrow> stream \<Rightarrow> string \<Rightarrow> s3_file list \<Rightarrow> nat \<Rightarrow> world
     \<Rightarrow> (fault + nat) \<times> world" where
  "sync_files e cfg tspec strm table_name [] records_streamed w = (Inr records_streamed, w)"
| "sync_files e cfg tspec strm table_name (s3_file # rest) records_streamed w =
     (case sync_table_file e cfg (key s3_file) tspec strm (last_modified s3_file) w of
        (Inl x, w1) \<Rightarrow> (Inl x, w1)
      | (Inr n, w1) \<Rightarrow>
          (let state = write_bookmark (st w1) table_name ''modified_since''
                         (isoformat e (last_modified s3_file));
               w2 = write_state state (w1\<lparr>st := state\<rparr>)
           in sync_files e cfg tspec strm table_name rest (records_streamed + n) w2))"

definition sync_stream :: "env \<Rightarrow> config \<Rightarrow> world \<Rightarrow> table_spec \<Rightarrow> stream \<Rightarrow> (fault + nat) \<times> world" where
  "sync_stream e cfg w tspec strm =
     (case tspec ''table_name'' of
        None \<Rightarrow> (Inl (KeyError ''table_name''), w)
      | Some table_name \<Rightarrow>
      (case modified_since_of e cfg (st w) table_name of
        Inl x \<Rightarrow> (Inl x, w)
      | Inr modified_since \<Rightarrow>
          (let w1 = LOGGER_info (Syncing_table table_name) w;
               w2 = LOGGER_info (Getting_files_modified_since modified_since) w1
           in case get_input_files_for_table e cfg tspec modified_since of
                Inl x \<Rightarrow> (Inl x, w2)
              | Inr s3_files \<Rightarrow>
                  (case sync_files e cfg tspec strm table_name (sorted_files s3_files) 0 w2 of
                     (Inl x, w3) \<Rightarrow> (Inl x, w3)
                   | (Inr records_streamed, w3) \<Rightarrow>
                       (Inr records_streamed,
                        LOGGER_info (Wrote_records records_streamed table_name) w3)))))"

section \<open>Reading the world\<close>

text \<open>
  The record messages and the state messages on the output channel, each in writing
  order, and the keys of the files the log reports as being synced.
\<close>

fun record_msgs :: "out_message list \<Rightarrow> dict list" where
  "record_msgs [] = []"
| "record_msgs (RECORD m # xs) = m # record_msgs xs"
| "record_msgs (STATE s # xs) = record_msgs xs"

fun state_msgs :: "out_message list \<Rightarrow> state list" where
  "state_msgs [] = []"
| "state_msgs (RECORD m # xs) = state_msgs xs"
| "state_msgs (STATE s # xs) = s # state_msgs xs"

fun synced_keys :: "log_entry list \<Rightarrow> string list" where
  "synced_keys [] = []"
| "synced_keys (Info (Syncing_file k) # xs) = k # synced_keys xs"
| "synced_keys (x # xs) = synced_keys xs"

text \<open>The rows an iterator yields before it ends or raises.\<close>

fun rows_of :: "row_iter \<Rightarrow> dict list" where
  "rows_of Stop = []"
| "rows_of (Raise x) = []"
| "rows_of (Yield row iterator) = row # rows_of iterator"

text \<open>The serialised message of one coerced record of a file.\<close>

definition message_of :: "string \<Rightarrow> datetime \<Rightarrow> dict \<Rightarrow> dict" where
  "message_of table_name lm to_write =
     asdict (RecordMessageWithSequence (RecordMessage table_name to_write) lm)"

text \<open>Committing a file: the bookmark the table sync writes after it.\<close>

definition commit :: "env \<Rightarrow> string \<Rightarrow> s3_file \<Rightarrow> state \<Rightarrow> state" where
  "commit e table_name f s =
     write_bookmark s table_name ''modified_since'' (isoformat e (last_modified f))"

text \<open>The states written when the files of a list are committed one after the other.\<close>

fun commits :: "env \<Rightarrow> string \<Rightarrow> state \<Rightarrow> s3_file list \<Rightarrow> state list" where
  "commits e table_name s [] = []"
| "commits e table_name s (f # fs) =
     commit e table_name f s # commits e table_name (commit e table_name f s) fs"

text \<open>The watermark of a table in a state.\<close>

definition watermark :: "string \<Rightarrow> state \<Rightarrow> string option" where
  "watermark table_name s = get_bookmark s table_name ''modified_since''"

text \<open>The world once \<open>sync_stream\<close> has logged its two opening lines.\<close>

definition listing_logged :: "string \<Rightarrow> datetime \<Rightarrow> world \<Rightarrow> world" where
  "listing_logged t since w =
     w\<lparr>log := log w @ [Info (Syncing_table t), Info (Getting_files_modified_since since)]\<rparr>"

section \<open>Faults while a file is streamed\<close>

text \<open>
  The encoding module a file sync settles on, or the fault of the import: the first
  component of what \<open>resolve_encoding_module\<close> returns, which does not depend on the
  world it is run in.
\<close>

definition chosen_module :: "env \<Rightarrow> config \<Rightarrow> fault + encoding_module" where
  "chosen_module e cfg =
     fst (resolve_encoding_module e cfg
            \<lparr>st = Map.empty, out = [], log = [], imports_requested = []\<rparr>)"

text \<open>
  A row iterator \<open>it\<close> faults with \<open>x\<close> after the records \<open>coerced\<close>: it yields rows
  that the transformer turns into \<open>coerced\<close>, one by one under their line numbers, and
  then either the iterator itself raises \<open>x\<close> (a decoding fault) or it yields one more
  row on which the transformation raises \<open>x\<close>.
\<close>

definition rows_fault ::
  "env \<Rightarrow> stream \<Rightarrow> string \<Rightarrow> string \<Rightarrow> row_iter \<Rightarrow> fault \<Rightarrow> dict list \<Rightarrow> bool" where
  "rows_fault e strm bucket s3_path it x coerced \<longleftrightarrow>
     (\<exists>rows tail.
        it = foldr Yield rows tail \<and> length coerced = length rows
      \<and> (\<forall>i<length rows.
             transform_rec e strm (merged_rec e bucket s3_path i (rows ! i)) = Inr (coerced ! i))
      \<and> (tail = Raise x
           \<or> (\<exists>row rest. tail = Yield row rest
                 \<and> transform_rec e strm (merged_rec e bucket s3_path (length rows) row) = Inl x)))"

text \<open>
  Streaming the file \<open>f\<close> faults with \<open>x\<close> after the records \<open>coerced\<close>: the storage
  does not hand out the file (a storage read fault, no record), or the module chosen for
  the sync raises when asked for the iterator (a decoding fault, no record), or the
  iterator it returns faults as above.
\<close>

definition streaming_fault ::
  "env \<Rightarrow> config \<Rightarrow> table_spec \<Rightarrow> stream \<Rightarrow> s3_file \<Rightarrow> fault \<Rightarrow> dict list \<Rightarrow> bool" where
  "streaming_fault e cfg tspec strm f x coerced \<longleftrightarrow>
     (\<exists>bucket. cfg ''bucket'' = Some bucket
      \<and> (get_file_handle e cfg (key f) = Inl x \<and> coerced = []
           \<or> (\<exists>h m. get_file_handle e cfg (key f) = Inr h \<and> chosen_module e cfg = Inr m
                 \<and> (m h tspec = Inl x \<and> coerced = []
                      \<or> (\<exists>it. m h tspec = Inr it
                            \<and> rows_fault e strm bucket (key f) it x coerced)))))"

section \<open>A sample run\<close>

text \<open>
  A concrete environment on which the theorems below are exercised. Table \<open>orders\<close>
  lists three files, out of order: \<open>b.csv\<close> (1 March 2020, two rows), \<open>a.csv\<close>
  (1 February 2020, one row) and \<open>c.csv\<close> (1 February 2020 as well, no row). Table
  \<open>broken\<close> lists \<open>b.csv\<close>, \<open>bad.csv\<close> (15 February 2020, three rows, the second
  of which the transformer refuses) and \<open>a.csv\<close>. All their datetimes are in UTC and
  share one tzinfo object. The start date is 1 January 2020, no module other than the
  default one can be imported, and the transformer returns every other record as it is.
\<close>

definition time_start :: datetime where
  "time_start = \<lparr>wall_us = 1577836800000000, utcoffset_us = 0, tzinfo = 0\<rparr>"

definition time_A :: datetime where
  "time_A = \<lparr>wall_us = 1580515200000000, utcoffset_us = 0, tzinfo = 0\<rparr>"

definition time_bad :: datetime where
  "time_bad = \<lparr>wall_us = 1581724800000000, utcoffset_us = 0, tzinfo = 0\<rparr>"

definition time_B :: datetime where
  "time_B = \<lparr>wall_us = 1583020800000000, utcoffset_us = 0, tzinfo = 0\<rparr>"

text \<open>
  Two datetimes of one tzinfo object in the hour a zone repeats when daylight saving ends:
  01:50 before the change (UTC-4) and 01:10 after it (UTC-5), on 1 November 2020. And the
  last microsecond of a second in the year 2514.
\<close>

definition time_early :: datetime where
  "time_early = \<lparr>wall_us = 1604195400000000, utcoffset_us = - 14400000000, tzinfo = 1\<rparr>"

definition time_late :: datetime where
  "time_late = \<lparr>wall_us = 1604193000000000, utcoffset_us = - 18000000000, tzinfo = 1\<rparr>"

definition time_2514 :: datetime where
  "time_2514 = \<lparr>wall_us = 17179869184999999, utcoffset_us = 0, tzinfo = 0\<rparr>"

definition file_early :: s3_file where
  "file_early = \<lparr>key = ''early.csv'', last_modified = time_early\<rparr>"

definition file_late :: s3_file where
  "file_late = \<lparr>key = ''late.csv'', last_modified = time_late\<rparr>"

definition file_A :: s3_file where
  "file_A = \<lparr>key = ''a.csv'', last_modified = time_A\<rparr>"

definition file_B :: s3_file where
  "file_B = \<lparr>key = ''b.csv'', last_modified = time_B\<rparr>"

definition file_C :: s3_file where
  "file_C = \<lparr>key = ''c.csv'', last_modified = time_A\<rparr>"

definition file_bad :: s3_file where
  "file_bad = \<lparr>key = ''bad.csv'', last_modified = time_bad\<rparr>"

definition sample_env :: env where
  "sample_env =
     \<lparr>strptime_with_tz = (\<lambda>text.
          if text = ''2020-01-01T00:00:00Z'' then Inr time_start
          else if text = ''2020-02-01T00:00:00+00:00'' then Inr time_A
          else if text = ''2020-02-15T00:00:00+00:00'' then Inr time_bad
          else if text = ''2020-03-01T00:00:00+00:00'' then Inr time_B
          else Inl (Raised ''ValueError'')),
      isoformat = (\<lambda>d.
          if d = time_A then ''2020-02-01T00:00:00+00:00''
          else if d = time_bad then ''2020-02-15T00:00:00+00:00''
          else if d = time_B then ''2020-03-01T00:00:00+00:00''
          else ''2020-01-01T00:00:00+00:00''),
      get_input_files_for_table = (\<lambda>cfg tspec since.
          Inr (filter (\<lambda>f. epoch_us since < epoch_us (last_modified f))
                 (if tspec ''table_name'' = Some ''broken''
                  then [file_B, file_bad, file_A] else [file_B, file_A, file_C]))),
      get_file_handle = (\<lambda>cfg s3_path.
          if s3_path \<in> {''a.csv'', ''b.csv'', ''c.csv'', ''bad.csv''} then Inr s3_path
          else Inl (Raised ''NoSuchKey'')),
      SDC_SOURCE_BUCKET_COLUMN = ''_sdc_source_bucket'',
      SDC_SOURCE_FILE_COLUMN = ''_sdc_source_file'',
      SDC_SOURCE_LINENO_COLUMN = ''_sdc_source_lineno'',
      import_module = (\<lambda>name. Inl (ModuleNotFoundError name)),
      singer_encodings_csv = (\<lambda>h tspec.
          if h = ''a.csv'' then Inr (Yield [(''id'', PStr ''1'')] Stop)
          else if h = ''b.csv'' then Inr (Yield [(''id'', PStr ''2'')] (Yield [(''id'', PStr ''3'')] Stop))
          else if h = ''bad.csv''
          then Inr (Yield [(''id'', PStr ''4'')] (Yield [(''id'', PStr ''x'')]
                      (Yield [(''id'', PStr ''5'')] Stop)))
          else Inr Stop),
      transform = (\<lambda>rec schema md.
          if dict_get ''id'' rec = Some (PStr ''x'') then Inl (Raised ''SchemaMismatch'')
          else Inr rec)\<rparr>"

definition sample_config :: config where
  "sample_config = [''bucket'' \<mapsto> ''my-bucket'', ''start_date'' \<mapsto> ''2020-01-01T00:00:00Z'']"

definition sample_config_override :: config where
  "sample_config_override = sample_config(''encoding_module'' \<mapsto> ''no.such.module'')"

definition sample_table :: table_spec where
  "sample_table = [''table_name'' \<mapsto> ''orders'']"

definition broken_table :: table_spec where
  "broken_table = [''table_name'' \<mapsto> ''broken'']"

definition sample_stream :: stream where
  "sample_stream = [''schema'' \<mapsto> PDict [], ''metadata'' \<mapsto> PList []]"

definition world0 :: world where
  "world0 = \<lparr>st = Map.empty, out = [], log = [], imports_requested = []\<rparr>"

text \<open>The world a later run starts in: the watermark of \<open>orders\<close> is that of \<open>b.csv\<close>.\<close>

definition world1 :: world where
  "world1 = world0\<lparr>st := [''orders'' \<mapsto> [''modified_since'' \<mapsto> ''2020-03-01T00:00:00+00:00'']]\<rparr>"

lemmas sample_defs =
  sample_env_def sample_config_def sample_config_override_def sample_table_def
  broken_table_def sample_stream_def world0_def world1_def
  file_A_def file_B_def file_C_def file_bad_def time_start_def time_A_def time_bad_def time_B_def

lemmas run_defs =
  sync_stream_def sync_table_file_def resolve_encoding_module_def modified_since_of_def
  sorted_files_def datetime_lt_def epoch_us_def transform_rec_def merged_rec_def
  custom_columns_def dict_merge_def dict_set_def dict_get_def message_of_def asdict_def
  RecordMessageWithSequence_def RecordMessage_def RecordMessage_asdict_def get_bookmark_def
  write_bookmark_def write_message_def write_state_def LOGGER_info_def LOGGER_warning_def
  commit_def timestamp_int_def nearest_double_trunc_def round_half_even_def

section \<open>Dictionaries\<close>

lemma dict_get_set: "dict_get k' (dict_set k v d) = (if k' = k then Some v else dict_get k' d)"
  by (simp add: dict_get_def dict_set_def update_conv')

lemma dict_get_append:
  "dict_get k (xs @ ys) = (case dict_get k xs of Some v \<Rightarrow> Some v | None \<Rightarrow> dict_get k ys)"
  by (simp add: dict_get_def map_add_def split: option.splits)

lemma dict_get_Nil: "dict_get k [] = None"
  by (simp add: dict_get_def)

lemma dict_get_Cons: "dict_get k ((k', v) # d) = (if k = k' then Some v else dict_get k d)"
  by (simp add: dict_get_def)

lemma dict_get_merge:
  "dict_get k (dict_merge a b) = (case dict_get k (rev b) of Some v \<Rightarrow> Some v | None \<Rightarrow> dict_get k a)"
proof (induction b arbitrary: a)
  case Nil
  then show ?case by (simp add: dict_merge_def dict_get_def)
next
  case (Cons p b)
  obtain k' v' where p: "p = (k', v')" by (cases p)
  have "dict_merge a (p # b) = dict_merge (dict_set k' v' a) b"
    by (simp add: dict_merge_def p)
  then show ?case
    using Cons.IH [of "dict_set k' v' a"]
    by (simp add: p dict_get_set dict_get_append dict_get_Cons dict_get_Nil split: option.splits)
qed

lemma custom_columns_lineno:
  "dict_get (SDC_SOURCE_LINENO_COLUMN e) (rev (custom_columns e bucket s3_path n)) = Some (PInt (int n + 2))"
  by (simp add: custom_columns_def dict_set_def dict_get_append dict_get_Cons dict_get_Nil)

lemma merged_rec_lineno:
  "dict_get (SDC_SOURCE_LINENO_COLUMN e) (merged_rec e bucket s3_path n row) = Some (PInt (int n + 2))"
  by (simp add: merged_rec_def dict_get_merge custom_columns_lineno)

lemma custom_columns_distinct:
  assumes "distinct [SDC_SOURCE_BUCKET_COLUMN e, SDC_SOURCE_FILE_COLUMN e, SDC_SOURCE_LINENO_COLUMN e]"
  shows "custom_columns e bucket s3_path n =
     [(SDC_SOURCE_BUCKET_COLUMN e, PStr bucket), (SDC_SOURCE_FILE_COLUMN e, PStr s3_path),
      (SDC_SOURCE_LINENO_COLUMN e, PInt (int n + 2))]"
  using assms by (simp add: custom_columns_def dict_set_def)


section \<open>What one file sync writes\<close>

lemma record_msgs_append: "record_msgs (xs @ ys) = record_msgs xs @ record_msgs ys"
  by (induction xs rule: record_msgs.induct) simp_all

lemma state_msgs_append: "state_msgs (xs @ ys) = state_msgs xs @ state_msgs ys"
  by (induction xs rule: state_msgs.induct) simp_all

lemma synced_keys_append: "synced_keys (xs @ ys) = synced_keys xs @ synced_keys ys"
  by (induction xs rule: synced_keys.induct) simp_all

lemma record_msgs_map_RECORD: "record_msgs (map RECORD ms) = ms"
  by (induction ms) simp_all

lemma state_msgs_map_RECORD: "state_msgs (map RECORD ms) = []"
  by (induction ms) simp_all

lemma sync_rows_trace:
  "sync_rows e bucket s3_path table_name strm lm it n w = (r, w') \<Longrightarrow>
     \<exists>ms. w' = w\<lparr>out := out w @ map RECORD ms\<rparr>
        \<and> (\<forall>k. r = Inr k \<longrightarrow> k = n + length ms)
        \<and> (\<forall>i<length ms. \<exists>to_write. i < length (rows_of it) \<and>
              transform_rec e strm (merged_rec e bucket s3_path (n + i) (rows_of it ! i)) = Inr to_write
              \<and> ms ! i = message_of table_name lm to_write)"
proof (induction it arbitrary: n w)
  case Stop
  then have "w' = w\<lparr>out := out w @ map RECORD []\<rparr>" "r = Inr n" by auto
  then show ?case by (intro exI [of _ "[]"]) simp
next
  case (Raise x)
  then have "w' = w\<lparr>out := out w @ map RECORD []\<rparr>" "r = Inl x" by auto
  then show ?case by (intro exI [of _ "[]"]) simp
next
  case (Yield row it)
  show ?case
  proof (cases "transform_rec e strm (merged_rec e bucket s3_path n row)")
    case (Inl x)
    with Yield.prems have "w' = w\<lparr>out := out w @ map RECORD []\<rparr>" "r = Inl x" by auto
    then show ?thesis by (intro exI [of _ "[]"]) simp
  next
    case (Inr to_write)
    define m where "m = message_of table_name lm to_write"
    from Yield.prems Inr
    have "sync_rows e bucket s3_path table_name strm lm it (Suc n) (write_message m w) = (r, w')"
      by (simp add: m_def message_of_def)
    from Yield.IH [OF this] obtain ms where
      w': "w' = (write_message m w)\<lparr>out := out (write_message m w) @ map RECORD ms\<rparr>"
      and cnt: "\<forall>k. r = Inr k \<longrightarrow> k = Suc n + length ms"
      and idx: "\<forall>i<length ms. \<exists>to_write. i < length (rows_of it) \<and>
              transform_rec e strm (merged_rec e bucket s3_path (Suc n + i) (rows_of it ! i)) = Inr to_write
              \<and> ms ! i = message_of table_name lm to_write"
      by blast
    have a: "w' = w\<lparr>out := out w @ map RECORD (m # ms)\<rparr>"
      using w' by (simp add: write_message_def)
    have b: "\<forall>k. r = Inr k \<longrightarrow> k = n + length (m # ms)"
      using cnt by simp
    have c: "\<exists>to_write. i < length (rows_of (Yield row it)) \<and>
              transform_rec e strm (merged_rec e bucket s3_path (n + i) (rows_of (Yield row it) ! i)) = Inr to_write
              \<and> (m # ms) ! i = message_of table_name lm to_write" if "i < length (m # ms)" for i
    proof (cases i)
      case 0
      then show ?thesis using Inr m_def by auto
    next
      case (Suc j)
      with that have "j < length ms" by simp
      with idx Suc show ?thesis by simp
    qed
    from a b c show ?thesis by blast
  qed
qed


lemma resolve_encoding_module_world:
  "resolve_encoding_module e cfg w = (r, w') \<Longrightarrow>
     st w' = st w \<and> out w' = out w \<and> synced_keys (log w') = synced_keys (log w)"
  by (auto simp: resolve_encoding_module_def LOGGER_warning_def Let_def synced_keys_append
           split: option.splits sum.splits fault.splits)

lemma resolve_encoding_module_imports:
  "resolve_encoding_module e cfg w = (r, w') \<Longrightarrow>
     imports_requested w' =
       imports_requested w @ (case cfg ''encoding_module'' of None \<Rightarrow> [] | Some name \<Rightarrow> [name])"
  by (auto simp: resolve_encoding_module_def LOGGER_warning_def Let_def
           split: option.splits sum.splits fault.splits)

lemma sync_table_file_trace:
  assumes "sync_table_file e cfg s3_path tspec strm lm w = (r, w')"
  shows "\<exists>ms. out w' = out w @ map RECORD ms \<and> st w' = st w
           \<and> synced_keys (log w') = synced_keys (log w) @ [s3_path]
           \<and> (\<forall>k. r = Inr k \<longrightarrow> k = length ms)
           \<and> (\<forall>m\<in>set ms. \<exists>to_write. m = message_of (the (tspec ''table_name'')) lm to_write)"
proof -
  define w1 where "w1 = LOGGER_info (Syncing_file s3_path) w"
  have w1: "out w1 = out w" "st w1 = st w" "synced_keys (log w1) = synced_keys (log w) @ [s3_path]"
    by (simp_all add: w1_def LOGGER_info_def synced_keys_append)
  have trivial: ?thesis if "w' = w1" "\<And>k. r \<noteq> Inr k"
    using that w1 by (intro exI [of _ "[]"]) simp
  show ?thesis
  proof (cases "cfg ''bucket''")
    case None
    with assms show ?thesis by (intro trivial) (auto simp: sync_table_file_def w1_def)
  next
    case bucket: (Some bucket)
    show ?thesis
    proof (cases "tspec ''table_name''")
      case None
      with assms bucket show ?thesis by (intro trivial) (auto simp: sync_table_file_def w1_def)
    next
      case tn: (Some table_name)
      show ?thesis
      proof (cases "get_file_handle e cfg s3_path")
        case (Inl x)
        with assms bucket tn show ?thesis
          by (intro trivial) (auto simp: sync_table_file_def w1_def)
      next
        case handle: (Inr h)
        obtain rm w2 where res: "resolve_encoding_module e cfg w1 = (rm, w2)"
          by (cases "resolve_encoding_module e cfg w1")
        from resolve_encoding_module_world [OF res] w1
        have w2: "out w2 = out w" "st w2 = st w"
          "synced_keys (log w2) = synced_keys (log w) @ [s3_path]" by simp_all
        have trivial2: ?thesis if "w' = w2" "\<And>k. r \<noteq> Inr k"
          using that w2 by (intro exI [of _ "[]"]) simp
        show ?thesis
        proof (cases rm)
          case (Inl x)
          with assms bucket tn handle res show ?thesis
            by (intro trivial2) (auto simp: sync_table_file_def w1_def)
        next
          case m: (Inr encoding_module)
          show ?thesis
          proof (cases "encoding_module h tspec")
            case (Inl x)
            with assms bucket tn handle res m show ?thesis
              by (intro trivial2) (auto simp: sync_table_file_def w1_def)
          next
            case (Inr it)
            with assms bucket tn handle res m
            have "sync_rows e bucket s3_path table_name strm lm it 0 w2 = (r, w')"
              by (simp add: sync_table_file_def w1_def)
            from sync_rows_trace [OF this] obtain ms where
              "w' = w2\<lparr>out := out w2 @ map RECORD ms\<rparr>"
              "\<forall>k. r = Inr k \<longrightarrow> k = 0 + length ms"
              "\<forall>i<length ms. \<exists>to_write. i < length (rows_of it) \<and>
                 transform_rec e strm (merged_rec e bucket s3_path (0 + i) (rows_of it ! i)) = Inr to_write
                 \<and> ms ! i = message_of table_name lm to_write"
              by blast
            then have "w' = w2\<lparr>out := out w2 @ map RECORD ms\<rparr>"
              "\<forall>k. r = Inr k \<longrightarrow> k = length ms"
              "\<forall>m\<in>set ms. \<exists>to_write. m = message_of table_name lm to_write"
              by (simp, simp, metis in_set_conv_nth)
            then show ?thesis using w2 tn
              by (intro exI [of _ ms]) simp
          qed
        qed
      qed
    qed
  qed
qed

lemma message_of_shape:
  "message_of table_name lm to_write =
     [(''type'', PStr ''RECORD''), (''stream'', PStr table_name), (''record'', PDict to_write),
      (''sequence'', PInt (timestamp_int lm))]"
  by (simp add: message_of_def asdict_def RecordMessageWithSequence_def RecordMessage_def
        RecordMessage_asdict_def dict_set_def)

lemma message_of_sequence:
  "dict_get ''sequence'' (message_of table_name lm to_write) = Some (PInt (timestamp_int lm))"
  by (simp add: message_of_shape dict_get_Cons)

section \<open>What the loop over the files writes\<close>

lemma get_bookmark_write_bookmark:
  "get_bookmark (write_bookmark s t k v) t' k' =
     (if t' = t \<and> k' = k then Some v else get_bookmark s t' k')"
  by (auto simp: get_bookmark_def write_bookmark_def split: option.splits)

lemma watermark_commit: "watermark t (commit e t f s) = Some (isoformat e (last_modified f))"
  by (simp add: watermark_def commit_def get_bookmark_write_bookmark)

lemma get_bookmark_commit_other:
  "(t', k) \<noteq> (t, ''modified_since'') \<Longrightarrow> get_bookmark (commit e t f s) t' k = get_bookmark s t' k"
  by (auto simp: commit_def get_bookmark_write_bookmark)

lemma watermark_commits:
  "map (watermark t) (commits e t s fs) = map (\<lambda>f. Some (isoformat e (last_modified f))) fs"
  by (induction fs arbitrary: s) (simp_all add: watermark_commit)

lemma length_commits: "length (commits e t s fs) = length fs"
  by (induction fs arbitrary: s) simp_all

lemma last_commits_other:
  "(t', k) \<noteq> (t, ''modified_since'') \<Longrightarrow>
     get_bookmark (last (s # commits e t s fs)) t' k = get_bookmark s t' k"
proof (induction fs arbitrary: s)
  case Nil
  then show ?case by simp
next
  case (Cons f fs)
  from Cons.IH [OF Cons.prems, of "commit e t f s"] Cons.prems
  show ?case by (simp add: get_bookmark_commit_other)
qed

lemma last_commits_watermark:
  "fs \<noteq> [] \<Longrightarrow>
     watermark t (last (s # commits e t s fs)) = Some (isoformat e (last_modified (last fs)))"
proof (induction fs arbitrary: s)
  case Nil
  then show ?case by simp
next
  case (Cons f fs)
  show ?case
  proof (cases "fs = []")
    case True
    then show ?thesis by (simp add: watermark_commit)
  next
    case False
    from Cons.IH [OF False, of "commit e t f s"] False show ?thesis by simp
  qed
qed

lemma sync_table_file_imports:
  assumes "sync_table_file e cfg s3_path tspec strm lm w = (Inr k, w')"
  shows "imports_requested w' =
           imports_requested w @ (case cfg ''encoding_module'' of None \<Rightarrow> [] | Some name \<Rightarrow> [name])"
proof -
  define w1 where "w1 = LOGGER_info (Syncing_file s3_path) w"
  obtain rm w2 where res: "resolve_encoding_module e cfg w1 = (rm, w2)"
    by (cases "resolve_encoding_module e cfg w1")
  from resolve_encoding_module_imports [OF res]
  have w2: "imports_requested w2 =
      imports_requested w @ (case cfg ''encoding_module'' of None \<Rightarrow> [] | Some name \<Rightarrow> [name])"
    by (simp add: w1_def LOGGER_info_def)
  from assms res obtain bucket table_name it where
    "sync_rows e bucket s3_path table_name strm lm it 0 w2 = (Inr k, w')"
    by (auto simp: sync_table_file_def w1_def Let_def split: option.splits sum.splits)
  from sync_rows_trace [OF this] obtain ms where "w' = w2\<lparr>out := out w2 @ map RECORD ms\<rparr>"
    by blast
  with w2 show ?thesis by simp
qed

lemma sync_files_trace:
  "sync_files e cfg tspec strm t fs n w = (r, w') \<Longrightarrow>
     \<exists>done. (\<forall>k. r = Inr k \<longrightarrow> done = fs)
        \<and> (\<forall>x. r = Inl x \<longrightarrow> (\<exists>f rest wm. fs = done @ f # rest
               \<and> sync_table_file e cfg (key f) tspec strm (last_modified f) wm = (Inl x, w')))
        \<and> state_msgs (out w') = state_msgs (out w) @ commits e t (st w) done
        \<and> st w' = last (st w # commits e t (st w) done)
        \<and> synced_keys (log w') = synced_keys (log w) @ map key (take (Suc (length done)) fs)"
proof (induction fs arbitrary: n w)
  case Nil
  then have "r = Inr n" "w' = w" by simp_all
  then show ?case by (intro exI [of _ "[]"]) simp
next
  case (Cons f fs)
  obtain rf w1 where fl: "sync_table_file e cfg (key f) tspec strm (last_modified f) w = (rf, w1)"
    by (cases "sync_table_file e cfg (key f) tspec strm (last_modified f) w")
  from sync_table_file_trace [OF fl] obtain ms where
    w1: "out w1 = out w @ map RECORD ms" "st w1 = st w"
      "synced_keys (log w1) = synced_keys (log w) @ [key f]"
    by blast
  show ?case
  proof (cases rf)
    case (Inl x)
    with Cons.prems fl have r: "r = Inl x" "w' = w1" by simp_all
    have "\<exists>f' rest wm. f # fs = [] @ f' # rest
            \<and> sync_table_file e cfg (key f') tspec strm (last_modified f') wm = (Inl x, w')"
      using fl Inl r by auto
    with r w1 show ?thesis
      by (intro exI [of _ "[]"]) (simp add: state_msgs_append state_msgs_map_RECORD)
  next
    case (Inr k)
    define s' where "s' = commit e t f (st w)"
    define w2 where "w2 = write_state s' (w1\<lparr>st := s'\<rparr>)"
    from Cons.prems fl Inr w1(2)
    have "sync_files e cfg tspec strm t fs (n + k) w2 = (r, w')"
      by (simp add: w2_def s'_def commit_def Let_def)
    from Cons.IH [OF this] obtain dn where
      a: "\<forall>k. r = Inr k \<longrightarrow> dn = fs"
      and b: "\<forall>x. r = Inl x \<longrightarrow> (\<exists>f rest wm. fs = dn @ f # rest
               \<and> sync_table_file e cfg (key f) tspec strm (last_modified f) wm = (Inl x, w'))"
      and c: "state_msgs (out w') = state_msgs (out w2) @ commits e t (st w2) dn"
      and d: "st w' = last (st w2 # commits e t (st w2) dn)"
      and g: "synced_keys (log w') = synced_keys (log w2) @ map key (take (Suc (length dn)) fs)"
      by blast
    have w2: "st w2 = s'" "state_msgs (out w2) = state_msgs (out w) @ [s']"
      "synced_keys (log w2) = synced_keys (log w) @ [key f]"
      using w1 by (simp_all add: w2_def write_state_def state_msgs_append state_msgs_map_RECORD)
    have b': "\<forall>x. r = Inl x \<longrightarrow> (\<exists>f' rest wm. f # fs = (f # dn) @ f' # rest
               \<and> sync_table_file e cfg (key f') tspec strm (last_modified f') wm = (Inl x, w'))"
      using b by auto
    from a b' c d g w2 show ?thesis
      by (intro exI [of _ "f # dn"]) (simp add: s'_def)
  qed
qed

lemma sync_files_imports:
  "sync_files e cfg tspec strm t fs n w = (Inr k, w') \<Longrightarrow>
     imports_requested w' = imports_requested w
       @ (case cfg ''encoding_module'' of None \<Rightarrow> [] | Some name \<Rightarrow> replicate (length fs) name)"
proof (induction fs arbitrary: n w)
  case Nil
  then show ?case by (simp split: option.splits)
next
  case (Cons f fs)
  obtain rf w1 where fl: "sync_table_file e cfg (key f) tspec strm (last_modified f) w = (rf, w1)"
    by (cases "sync_table_file e cfg (key f) tspec strm (last_modified f) w")
  show ?case
  proof (cases rf)
    case (Inl x)
    with Cons.prems fl show ?thesis by simp
  next
    case (Inr j)
    define s' where "s' = commit e t f (st w1)"
    define w2 where "w2 = write_state s' (w1\<lparr>st := s'\<rparr>)"
    from Cons.prems fl Inr
    have "sync_files e cfg tspec strm t fs (n + j) w2 = (Inr k, w')"
      by (simp add: w2_def s'_def commit_def Let_def)
    from Cons.IH [OF this] sync_table_file_imports [OF fl [unfolded Inr]]
    show ?thesis
      by (simp add: w2_def write_state_def replicate_append_same split: option.splits)
  qed
qed

lemma sync_stream_loop:
  assumes tn: "tspec ''table_name'' = Some t"
    and since: "modified_since_of e cfg (st w) t = Inr since"
    and listing: "get_input_files_for_table e cfg tspec since = Inr s3_files"
    and run: "sync_stream e cfg w tspec strm = (r, w')"
  shows "\<exists>w3. sync_files e cfg tspec strm t (sorted_files s3_files) 0 (listing_logged t since w) = (r, w3)
     \<and> st w' = st w3 \<and> out w' = out w3 \<and> imports_requested w' = imports_requested w3
     \<and> synced_keys (log w') = synced_keys (log w3)
     \<and> (\<forall>x. r = Inl x \<longrightarrow> w' = w3)"
proof -
  define w2 where "w2 = listing_logged t since w"
  obtain r3 w3 where loop: "sync_files e cfg tspec strm t (sorted_files s3_files) 0 w2 = (r3, w3)"
    by (cases "sync_files e cfg tspec strm t (sorted_files s3_files) 0 w2")
  have w2': "LOGGER_info (Getting_files_modified_since since) (LOGGER_info (Syncing_table t) w) = w2"
    by (simp add: w2_def listing_logged_def LOGGER_info_def)
  from run tn since listing loop
  have res: "(r, w') = (case r3 of Inl x \<Rightarrow> (Inl x, w3)
                | Inr k \<Rightarrow> (Inr k, LOGGER_info (Wrote_records k t) w3))"
    by (simp add: sync_stream_def Let_def w2' split: sum.splits)
  then have r: "r = r3" by (cases r3) simp_all
  from res have a: "st w' = st w3" "out w' = out w3" "imports_requested w' = imports_requested w3"
    "synced_keys (log w') = synced_keys (log w3)"
    by (cases r3; simp add: LOGGER_info_def synced_keys_append)+
  from res r have b: "\<forall>x. r = Inl x \<longrightarrow> w' = w3"
    by (auto simp: LOGGER_info_def)
  from loop r a b show ?thesis unfolding w2_def by blast
qed

lemma listing_logged_world:
  "st (listing_logged t since w) = st w" "out (listing_logged t since w) = out w"
  "imports_requested (listing_logged t since w) = imports_requested w"
  "synced_keys (log (listing_logged t since w)) = synced_keys (log w)"
  by (simp_all add: listing_logged_def synced_keys_append)

lemma sorted_last_greatest:
  assumes "sorted (map f xs)" "x \<in> set xs"
  shows "f x \<le> f (last xs)"
proof -
  from assms(2) obtain i where i: "i < length xs" "xs ! i = x"
    by (auto simp: in_set_conv_nth)
  then have ne: "xs \<noteq> []" by auto
  have "map f xs ! i \<le> map f xs ! (length xs - 1)"
    using assms(1) i by (intro sorted_nth_mono) auto
  with i ne show ?thesis by (simp add: last_conv_nth)
qed

lemma modified_since_of_watermark:
  assumes "watermark t s = Some text" "text \<noteq> []"
  shows "modified_since_of e cfg s t = strptime_with_tz e text"
  using assms by (simp add: modified_since_of_def watermark_def)

lemma sync_rows_log:
  "sync_rows e bucket s3_path table_name strm lm it n (w\<lparr>log := l\<rparr>)
     = (fst (sync_rows e bucket s3_path table_name strm lm it n w),
        (snd (sync_rows e bucket s3_path table_name strm lm it n w))\<lparr>log := l\<rparr>)"
proof (induction it arbitrary: n w)
  case Stop
  show ?case by simp
next
  case (Raise x)
  show ?case by simp
next
  case (Yield row it)
  have wm: "write_message m (w\<lparr>log := l\<rparr>) = (write_message m w)\<lparr>log := l\<rparr>" for m
    by (simp add: write_message_def)
  show ?case
    by (cases "transform_rec e strm (merged_rec e bucket s3_path n row)")
       (simp_all add: wm Yield.IH)
qed

lemma sync_rows_import_module:
  "sync_rows (e\<lparr>import_module := f\<rparr>) bucket s3_path table_name strm lm it n w
     = sync_rows e bucket s3_path table_name strm lm it n w"
proof (induction it arbitrary: n w)
  case Stop
  show ?case by simp
next
  case (Raise x)
  show ?case by simp
next
  case (Yield row it)
  have "transform_rec (e\<lparr>import_module := f\<rparr>) strm
            (merged_rec (e\<lparr>import_module := f\<rparr>) bucket s3_path n row)
          = transform_rec e strm (merged_rec e bucket s3_path n row)"
    by (simp add: transform_rec_def merged_rec_def custom_columns_def split: option.splits)
  then show ?case
    by (cases "transform_rec e strm (merged_rec e bucket s3_path n row)")
       (simp_all add: Yield.IH)
qed

lemma sync_table_file_cases:
  assumes "sync_table_file e cfg s3_path tspec strm lm w = (r, w')"
  shows "out w' = out w
     \<or> (\<exists>bucket table_name h m w2 it.
           cfg ''bucket'' = Some bucket \<and> tspec ''table_name'' = Some table_name
         \<and> get_file_handle e cfg s3_path = Inr h
         \<and> resolve_encoding_module e cfg (LOGGER_info (Syncing_file s3_path) w) = (Inr m, w2)
         \<and> m h tspec = Inr it
         \<and> out w2 = out w
         \<and> sync_rows e bucket s3_path table_name strm lm it 0 w2 = (r, w'))"
proof -
  define w1 where "w1 = LOGGER_info (Syncing_file s3_path) w"
  obtain rm w2 where res: "resolve_encoding_module e cfg w1 = (rm, w2)"
    by (cases "resolve_encoding_module e cfg w1")
  from resolve_encoding_module_world [OF res] have w2: "out w2 = out w"
    by (simp add: w1_def LOGGER_info_def)
  have w1: "out w1 = out w" by (simp add: w1_def LOGGER_info_def)
  from assms res w1 w2 show ?thesis
    unfolding sync_table_file_def w1_def [symmetric] Let_def
    by (auto split: option.splits sum.splits)
qed

lemma sync_rows_line_numbers:
  assumes run: "sync_rows e bucket s3_path table_name strm lm it 0 w = (r, w')"
    and N: "1 \<le> N" "N \<le> length (record_msgs (out w')) - length (record_msgs (out w))"
  shows "N \<le> length (rows_of it)
     \<and> dict_get (SDC_SOURCE_LINENO_COLUMN e)
          (merged_rec e bucket s3_path (N - 1) (rows_of it ! (N - 1))) = Some (PInt (int N + 1))
     \<and> (\<exists>to_write.
           transform_rec e strm (merged_rec e bucket s3_path (N - 1) (rows_of it ! (N - 1)))
             = Inr to_write
           \<and> record_msgs (out w') ! (length (record_msgs (out w)) + (N - 1))
             = message_of table_name lm to_write)"
proof -
  from sync_rows_trace [OF run] obtain ms where
    w': "w' = w\<lparr>out := out w @ map RECORD ms\<rparr>"
    and idx: "\<forall>i<length ms. \<exists>to_write. i < length (rows_of it) \<and>
        transform_rec e strm (merged_rec e bucket s3_path (0 + i) (rows_of it ! i)) = Inr to_write
        \<and> ms ! i = message_of table_name lm to_write"
    by blast
  have msgs: "record_msgs (out w') = record_msgs (out w) @ ms"
    by (simp add: w' record_msgs_append record_msgs_map_RECORD)
  with N have i: "N - 1 < length ms" by simp
  with idx obtain to_write where
    a: "N - 1 < length (rows_of it)"
    and b: "transform_rec e strm (merged_rec e bucket s3_path (N - 1) (rows_of it ! (N - 1)))
              = Inr to_write"
    and c: "ms ! (N - 1) = message_of table_name lm to_write"
    by auto
  have d: "record_msgs (out w') ! (length (record_msgs (out w)) + (N - 1)) = ms ! (N - 1)"
    by (simp add: msgs)
  have e: "int (N - 1) + 2 = int N + 1" using N by simp
  from a b c d e N show ?thesis
    by (auto simp: merged_rec_lineno)
qed

lemma state_msgs_map_RECORD_of: "state_msgs (map (\<lambda>x. RECORD (g x)) xs) = []"
  by (induction xs) simp_all

section \<open>The sort\<close>

lemma set_insort_lt: "set (insort_lt lt x ys) = insert x (set ys)"
  by (induction ys) auto

lemma length_insort_lt: "length (insort_lt lt x ys) = Suc (length ys)"
  by (induction ys) simp_all

lemma sorted_files_Nil: "sorted_files [] = []"
  by (simp add: sorted_files_def)

lemma set_sorted_files: "set (sorted_files fs) = set fs"
  by (induction fs) (simp_all add: sorted_files_def set_insort_lt)

lemma length_sorted_files: "length (sorted_files fs) = length fs"
  by (induction fs) (simp_all add: sorted_files_def length_insort_lt)

lemma insort_lt_insort_key:
  "\<forall>y\<in>set ys. lt y x = (k y < k x) \<Longrightarrow> insort_lt lt x ys = insort_key k x ys"
  for k :: "'a \<Rightarrow> int"
  by (induction ys) (auto simp: not_le)

lemma sorted_files_sort_key:
  fixes k :: "datetime \<Rightarrow> int"
  assumes "\<forall>f\<in>set fs. \<forall>g\<in>set fs.
             datetime_lt (last_modified f) (last_modified g) = (k (last_modified f) < k (last_modified g))"
  shows "sorted_files fs = sort_key (\<lambda>f. k (last_modified f)) fs"
  using assms
proof (induction fs)
  case Nil
  show ?case by (simp add: sorted_files_def)
next
  case (Cons f fs)
  from Cons.prems have "\<forall>f\<in>set fs. \<forall>g\<in>set fs.
       datetime_lt (last_modified f) (last_modified g) = (k (last_modified f) < k (last_modified g))"
    by simp
  from Cons.IH [OF this] have ih: "sorted_files fs = sort_key (\<lambda>f. k (last_modified f)) fs" .
  have "\<forall>g\<in>set (sorted_files fs).
          datetime_lt (last_modified g) (last_modified f) = (k (last_modified g) < k (last_modified f))"
    using Cons.prems by (simp add: set_sorted_files)
  from insort_lt_insort_key [of "sorted_files fs"
      "\<lambda>a b. datetime_lt (last_modified a) (last_modified b)" f "\<lambda>f. k (last_modified f)", OF this]
  have "insort_lt (\<lambda>a b. datetime_lt (last_modified a) (last_modified b)) f (sorted_files fs)
          = insort_key (\<lambda>f. k (last_modified f)) f (sort_key (\<lambda>f. k (last_modified f)) fs)"
    by (simp only: ih)
  then show ?case by (simp add: sorted_files_def)
qed

lemma datetime_lt_wall:
  "tzinfo a = tzinfo b \<or> utcoffset_us a = utcoffset_us b \<Longrightarrow> datetime_lt a b = (wall_us a < wall_us b)"
  by (simp add: datetime_lt_def)

lemma compares_as_wall:
  assumes "\<forall>f\<in>set fs. \<forall>g\<in>set fs.
             tzinfo (last_modified f) = tzinfo (last_modified g)
             \<or> utcoffset_us (last_modified f) = utcoffset_us (last_modified g)"
  shows "compares_as wall_us fs"
  using assms unfolding compares_as_def by (simp add: datetime_lt_wall)

lemma datetime_lt_same_offset:
  "utcoffset_us a = utcoffset_us b \<Longrightarrow> datetime_lt a b = (epoch_us a < epoch_us b)"
  by (simp add: datetime_lt_def epoch_us_def)



lemma sync_files_append:
  "sync_files e cfg tspec strm t (xs @ ys) n w =
     (case sync_files e cfg tspec strm t xs n w of
        (Inl x, w1) \<Rightarrow> (Inl x, w1)
      | (Inr k, w1) \<Rightarrow> sync_files e cfg tspec strm t ys k w1)"
proof (induction xs arbitrary: n w)
  case Nil
  show ?case by simp
next
  case (Cons f xs)
  show ?case
    by (cases "sync_table_file e cfg (key f) tspec strm (last_modified f) w")
       (auto simp: Cons.IH Let_def split: sum.splits)
qed

lemma resolve_encoding_module_fst:
  "fst (resolve_encoding_module e cfg w) = chosen_module e cfg"
  by (simp add: chosen_module_def resolve_encoding_module_def Let_def
           split: option.splits sum.splits fault.splits)

lemma sync_rows_fault:
  assumes "length coerced = length rows"
    and "\<forall>i<length rows.
           transform_rec e strm (merged_rec e bucket s3_path (n + i) (rows ! i)) = Inr (coerced ! i)"
    and "tail = Raise x
         \<or> (\<exists>row rest. tail = Yield row rest
               \<and> transform_rec e strm (merged_rec e bucket s3_path (n + length rows) row) = Inl x)"
  shows "sync_rows e bucket s3_path table_name strm lm (foldr Yield rows tail) n w
           = (Inl x, w\<lparr>out := out w @ map (\<lambda>tw. RECORD (message_of table_name lm tw)) coerced\<rparr>)"
  using assms
proof (induction rows arbitrary: n w coerced)
  case Nil
  then show ?case by auto
next
  case (Cons row rows)
  from Cons.prems(1) obtain tw tws where c: "coerced = tw # tws" "length tws = length rows"
    by (cases coerced) auto
  from Cons.prems(2) [rule_format, of 0] c
  have first: "transform_rec e strm (merged_rec e bucket s3_path n row) = Inr tw"
    by simp
  have rest: "\<forall>i<length rows.
      transform_rec e strm (merged_rec e bucket s3_path (Suc n + i) (rows ! i)) = Inr (tws ! i)"
  proof (intro allI impI)
    fix i assume "i < length rows"
    with Cons.prems(2) [rule_format, of "Suc i"] c show
      "transform_rec e strm (merged_rec e bucket s3_path (Suc n + i) (rows ! i)) = Inr (tws ! i)"
      by simp
  qed
  from Cons.prems(3) have tail: "tail = Raise x
         \<or> (\<exists>row rest. tail = Yield row rest
               \<and> transform_rec e strm (merged_rec e bucket s3_path (Suc n + length rows) row) = Inl x)"
    by simp
  from Cons.IH [OF c(2) rest tail, of "write_message (message_of table_name lm tw) w"]
  show ?case
    by (simp add: first c write_message_def message_of_def)
qed

lemma sync_table_file_fault:
  assumes tn: "tspec ''table_name'' = Some t"
    and fault: "streaming_fault e cfg tspec strm f x coerced"
  shows "\<exists>w'. sync_table_file e cfg (key f) tspec strm (last_modified f) w = (Inl x, w')
           \<and> out w' = out w @ map (\<lambda>tw. RECORD (message_of t (last_modified f) tw)) coerced
           \<and> st w' = st w"
proof -
  define w1 where "w1 = LOGGER_info (Syncing_file (key f)) w"
  have w1: "out w1 = out w" "st w1 = st w"
    by (simp_all add: w1_def LOGGER_info_def)
  from fault obtain bucket where bucket: "cfg ''bucket'' = Some bucket"
    and cases: "get_file_handle e cfg (key f) = Inl x \<and> coerced = []
           \<or> (\<exists>h m. get_file_handle e cfg (key f) = Inr h \<and> chosen_module e cfg = Inr m
                 \<and> (m h tspec = Inl x \<and> coerced = []
                      \<or> (\<exists>it. m h tspec = Inr it
                            \<and> rows_fault e strm bucket (key f) it x coerced)))"
    unfolding streaming_fault_def by blast
  from cases show ?thesis
  proof (elim disjE conjE exE)
    assume "get_file_handle e cfg (key f) = Inl x" "coerced = []"
    with bucket tn w1 show ?thesis
      by (simp add: sync_table_file_def w1_def [symmetric])
  next
    fix h m
    assume h: "get_file_handle e cfg (key f) = Inr h" and m: "chosen_module e cfg = Inr m"
      and open_fault: "m h tspec = Inl x" "coerced = []"
    obtain rm w2 where res: "resolve_encoding_module e cfg w1 = (rm, w2)"
      by (cases "resolve_encoding_module e cfg w1")
    with resolve_encoding_module_fst [of e cfg w1] m have rm: "rm = Inr m" by simp
    from resolve_encoding_module_world [OF res] w1 have w2: "out w2 = out w" "st w2 = st w"
      by simp_all
    from bucket tn h res rm open_fault w2 show ?thesis
      by (simp add: sync_table_file_def w1_def [symmetric])
  next
    fix h m it
    assume h: "get_file_handle e cfg (key f) = Inr h" and m: "chosen_module e cfg = Inr m"
      and it: "m h tspec = Inr it" and rf: "rows_fault e strm bucket (key f) it x coerced"
    obtain rm w2 where res: "resolve_encoding_module e cfg w1 = (rm, w2)"
      by (cases "resolve_encoding_module e cfg w1")
    with resolve_encoding_module_fst [of e cfg w1] m have rm: "rm = Inr m" by simp
    from resolve_encoding_module_world [OF res] w1 have w2: "out w2 = out w" "st w2 = st w"
      by simp_all
    from rf obtain rows tail where
      shape: "it = foldr Yield rows tail" and len: "length coerced = length rows"
      and good: "\<forall>i<length rows.
             transform_rec e strm (merged_rec e bucket (key f) (0 + i) (rows ! i)) = Inr (coerced ! i)"
      and bad: "tail = Raise x
           \<or> (\<exists>row rest. tail = Yield row rest
                 \<and> transform_rec e strm (merged_rec e bucket (key f) (0 + length rows) row) = Inl x)"
      unfolding rows_fault_def by auto
    from sync_rows_fault [OF len good bad, of t "last_modified f" w2]
    have "sync_rows e bucket (key f) t strm (last_modified f) it 0 w2
           = (Inl x, w2\<lparr>out := out w2 @ map (\<lambda>tw. RECORD (message_of t (last_modified f) tw)) coerced\<rparr>)"
      by (simp only: shape)
    with bucket tn h res rm it w2 show ?thesis
      by (simp add: sync_table_file_def w1_def [symmetric])
  qed
qed

section \<open>Facts of the sample run\<close>

lemma sample_table_name: "sample_table ''table_name'' = Some ''orders''"
  by (simp add: sample_table_def)

lemma sample_since_start:
  "modified_since_of sample_env sample_config (st world0) ''orders'' = Inr time_start"
  "modified_since_of sample_env sample_config_override (st world0) ''orders'' = Inr time_start"
  by (simp_all add: modified_since_of_def get_bookmark_def sample_config_def
        sample_config_override_def sample_env_def world0_def)

lemma sample_listing:
  "get_input_files_for_table sample_env cfg sample_table time_start = Inr [file_B, file_A, file_C]"
  by (simp add: sample_defs epoch_us_def)

lemma sample_sorted: "sorted_files [file_B, file_A, file_C] = [file_A, file_C, file_B]"
  by (simp add: sorted_files_def datetime_lt_def sample_defs)

lemma sample_run:
  "fst (sync_stream sample_env sample_config world0 sample_table sample_stream) = Inr 3"
  by (simp add: run_defs sample_defs Let_def)

lemma broken_table_name: "broken_table ''table_name'' = Some ''broken''"
  by (simp add: broken_table_def)

lemma broken_since:
  "modified_since_of sample_env sample_config (st world0) ''broken'' = Inr time_start"
  by (simp add: modified_since_of_def get_bookmark_def sample_config_def sample_env_def world0_def)

lemma broken_listing:
  "get_input_files_for_table sample_env sample_config broken_table time_start
     = Inr [file_B, file_bad, file_A]"
  by (simp add: sample_defs epoch_us_def)

lemma broken_sorted: "sorted_files [file_B, file_bad, file_A] = [file_A, file_bad, file_B]"
  by (simp add: sorted_files_def datetime_lt_def sample_defs)

lemma sample_wall_key: "compares_as wall_us [file_B, file_A, file_C]"
  by (simp add: compares_as_def datetime_lt_def sample_defs)

lemma broken_wall_key: "compares_as wall_us [file_B, file_bad, file_A]"
  by (simp add: compares_as_def datetime_lt_def sample_defs)

text \<open>
  The sort follows Python where the instants and the wall clocks disagree, and the
  timestamp follows the double: the last microsecond of a second can round up.
\<close>

lemma sorted_files_fold: "sorted_files [file_early, file_late] = [file_late, file_early]"
  by (simp add: sorted_files_def datetime_lt_def file_early_def file_late_def
        time_early_def time_late_def)

lemma epoch_us_fold: "epoch_us time_early < epoch_us time_late"
  by (simp add: epoch_us_def time_early_def time_late_def)

lemma timestamp_int_2514: "timestamp_int time_2514 = 17179869185"
  by (simp add: time_2514_def timestamp_int_def epoch_us_def nearest_double_trunc_def
        round_half_even_def Let_def)

lemma sample_timestamps:
  "timestamp_int time_A = 1580515200" "timestamp_int time_B = 1583020800"
  by (simp_all add: time_A_def time_B_def timestamp_int_def epoch_us_def nearest_double_trunc_def
        round_half_even_def Let_def)

lemma bad_rows_fault:
  "rows_fault sample_env sample_stream ''my-bucket'' ''bad.csv''
     (Yield [(''id'', PStr ''4'')] (Yield [(''id'', PStr ''x'')] (Yield [(''id'', PStr ''5'')] Stop)))
     (Raised ''SchemaMismatch'')
     [[(''id'', PStr ''4''), (''_sdc_source_bucket'', PStr ''my-bucket''),
       (''_sdc_source_file'', PStr ''bad.csv''), (''_sdc_source_lineno'', PInt 2)]]"
  unfolding rows_fault_def
  by (intro exI [of _ "[[(''id'', PStr ''4'')]]"]
        exI [of _ "Yield [(''id'', PStr ''x'')] (Yield [(''id'', PStr ''5'')] Stop)"])
     (simp add: transform_rec_def merged_rec_def custom_columns_def dict_merge_def dict_set_def
        dict_get_def sample_env_def sample_stream_def)

lemma bad_streaming_fault:
  "streaming_fault sample_env sample_config broken_table sample_stream file_bad
     (Raised ''SchemaMismatch'')
     [[(''id'', PStr ''4''), (''_sdc_source_bucket'', PStr ''my-bucket''),
       (''_sdc_source_file'', PStr ''bad.csv''), (''_sdc_source_lineno'', PInt 2)]]"
proof -
  have bucket: "sample_config ''bucket'' = Some ''my-bucket''"
    by (simp add: sample_config_def)
  have handle: "get_file_handle sample_env sample_config (key file_bad) = Inr ''bad.csv''"
    by (simp add: sample_env_def file_bad_def)
  have chosen: "chosen_module sample_env sample_config = Inr (singer_encodings_csv sample_env)"
    by (simp add: chosen_module_def resolve_encoding_module_def sample_config_def)
  have opened: "singer_encodings_csv sample_env ''bad.csv'' broken_table
      = Inr (Yield [(''id'', PStr ''4'')] (Yield [(''id'', PStr ''x'')]
               (Yield [(''id'', PStr ''5'')] Stop)))"
    by (simp add: sample_env_def)
  have k: "key file_bad = ''bad.csv''" by (simp add: file_bad_def)
  from bucket handle chosen opened bad_rows_fault show ?thesis
    unfolding streaming_fault_def k by blast
qed

section \<open>The claims\<close>



text \<open>
  Claim C2. Take a listing whose datetimes Python's comparison orders as some integer
  key does. When the table sync returns, it has written one state message per file, in the
  order the files were synced, each holding that file's \<^verbatim>\<open>last_modified.isoformat()\<close> as
  the watermark of the table, and the state object is the last one written: the watermark
  is that of the last file synced; with an empty listing the state is unchanged. For a
  listing under one offset that last file is the latest. If the listing holds only files
  modified strictly after the watermark the sync read, the new watermark is the print of
  a strictly later instant, and, when \<^verbatim>\<open>strptime_with_tz\<close> reads back what \<^verbatim>\<open>isoformat\<close>
  prints, the watermark the next sync reads is not earlier than the one this sync read.
\<close>

theorem watermark_is_last_file_and_monotone:
  assumes tn: "tspec ''table_name'' = Some t"
    and since: "modified_since_of e cfg (st w) t = Inr since"
    and listing: "get_input_files_for_table e cfg tspec since = Inr s3_files"
    and cmp: "compares_as key_of s3_files"
    and run: "sync_stream e cfg w tspec strm = (Inr k, w')"
  shows "(\<exists>new. state_msgs (out w') = state_msgs (out w) @ new
            \<and> map (watermark t) new
                = map (\<lambda>f. Some (isoformat e (last_modified f))) (sorted_files s3_files)
            \<and> st w' = last (st w # new))
     \<and> (s3_files = [] \<longrightarrow> st w' = st w)
     \<and> (s3_files \<noteq> [] \<longrightarrow>
           watermark t (st w') = Some (isoformat e (last_modified (last (sorted_files s3_files)))))
     \<and> ((\<forall>f\<in>set s3_files. utcoffset_us (last_modified f) = off) \<longrightarrow>
           (\<forall>f\<in>set s3_files. epoch_us (last_modified f)
                  \<le> epoch_us (last_modified (last (sorted_files s3_files)))))
     \<and> ((\<forall>f\<in>set s3_files. epoch_us since < epoch_us (last_modified f)) \<longrightarrow>
           (s3_files \<noteq> [] \<longrightarrow>
              epoch_us since < epoch_us (last_modified (last (sorted_files s3_files))))
           \<and> ((\<forall>f\<in>set s3_files. isoformat e (last_modified f) \<noteq> []
                  \<and> (\<exists>d. strptime_with_tz e (isoformat e (last_modified f)) = Inr d
                         \<and> epoch_us d = epoch_us (last_modified f))) \<longrightarrow>
               (\<exists>since'. modified_since_of e cfg (st w') t = Inr since'
                   \<and> epoch_us since \<le> epoch_us since')))"
proof -
  define fs where "fs = sorted_files s3_files"
  define w2 where "w2 = listing_logged t since w"
  from sync_stream_loop [OF tn since listing run] obtain w3 where
    loop: "sync_files e cfg tspec strm t fs 0 w2 = (Inr k, w3)"
    and w3: "st w' = st w3" "out w' = out w3"
    unfolding w2_def fs_def by blast
  from sync_files_trace [OF loop] have
    c: "state_msgs (out w3) = state_msgs (out w2) @ commits e t (st w2) fs"
    and d: "st w3 = last (st w2 # commits e t (st w2) fs)"
    by auto
  define new where "new = commits e t (st w) fs"
  have 1: "state_msgs (out w') = state_msgs (out w) @ new"
    "map (watermark t) new = map (\<lambda>f. Some (isoformat e (last_modified f))) fs"
    "st w' = last (st w # new)"
    using c d w3 by (simp_all add: new_def w2_def listing_logged_world watermark_commits)
  have set_fs: "set fs = set s3_files"
    by (simp add: fs_def set_sorted_files)
  have empty: "fs = [] \<longleftrightarrow> s3_files = []"
    using set_fs by (metis set_empty)
  have 2: "s3_files = [] \<longrightarrow> st w' = st w"
    using 1(3) empty by (auto simp: new_def)
  have 3: "watermark t (st w') = Some (isoformat e (last_modified (last fs)))"
    if "s3_files \<noteq> []"
  proof -
    from that empty have "fs \<noteq> []" by simp
    from last_commits_watermark [OF this] 1(3) show ?thesis
      by (simp add: new_def)
  qed
  have latest: "\<forall>f\<in>set s3_files. epoch_us (last_modified f) \<le> epoch_us (last_modified (last fs))"
    if uniform: "\<forall>f\<in>set s3_files. utcoffset_us (last_modified f) = off"
  proof -
    have agree: "\<forall>f\<in>set s3_files. \<forall>g\<in>set s3_files.
        datetime_lt (last_modified f) (last_modified g)
          = (epoch_us (last_modified f) < epoch_us (last_modified g))"
      using uniform by (simp add: datetime_lt_same_offset)
    have "sorted (map (\<lambda>f. epoch_us (last_modified f)) fs)"
      unfolding fs_def sorted_files_sort_key [OF agree] by (rule sorted_sort_key)
    from sorted_last_greatest [OF this] set_fs show ?thesis by blast
  qed
  have mem: "last fs \<in> set s3_files" if "s3_files \<noteq> []"
    using that empty set_fs last_in_set by blast
  have 4: "epoch_us since < epoch_us (last_modified (last fs))"
    if "\<forall>f\<in>set s3_files. epoch_us since < epoch_us (last_modified f)" "s3_files \<noteq> []"
    using that mem by blast
  have 5: "\<exists>since'. modified_since_of e cfg (st w') t = Inr since'
            \<and> epoch_us since \<le> epoch_us since'"
    if selector: "\<forall>f\<in>set s3_files. epoch_us since < epoch_us (last_modified f)"
      and roundtrip: "\<forall>f\<in>set s3_files. isoformat e (last_modified f) \<noteq> []
           \<and> (\<exists>d. strptime_with_tz e (isoformat e (last_modified f)) = Inr d
                  \<and> epoch_us d = epoch_us (last_modified f))"
  proof (cases "s3_files = []")
    case True
    with 2 since show ?thesis by auto
  next
    case False
    from roundtrip mem [OF False] obtain d where
      ne: "isoformat e (last_modified (last fs)) \<noteq> []"
      and d: "strptime_with_tz e (isoformat e (last_modified (last fs))) = Inr d"
        "epoch_us d = epoch_us (last_modified (last fs))"
      by blast
    from modified_since_of_watermark [OF 3 [OF False] ne] d(1)
    have "modified_since_of e cfg (st w') t = Inr d" by simp
    moreover from 4 [OF selector False] d(2) have "epoch_us since \<le> epoch_us d" by simp
    ultimately show ?thesis by blast
  qed
  from 1 2 3 latest 4 5 show ?thesis unfolding fs_def by blast
qed

theorem watermark_is_last_file_and_monotone_witness:
  "sample_table ''table_name'' = Some ''orders''
   \<and> modified_since_of sample_env sample_config (st world0) ''orders'' = Inr time_start
   \<and> get_input_files_for_table sample_env sample_config sample_table time_start
       = Inr [file_B, file_A, file_C]
   \<and> fst (sync_stream sample_env sample_config world0 sample_table sample_stream) = Inr 3
   \<and> epoch_us time_start < epoch_us (last_modified file_A)
   \<and> epoch_us time_start < epoch_us (last_modified file_B)
   \<and> epoch_us time_start < epoch_us (last_modified file_C)
   \<and> strptime_with_tz sample_env (isoformat sample_env (last_modified file_A)) = Inr time_A
   \<and> strptime_with_tz sample_env (isoformat sample_env (last_modified file_B)) = Inr time_B
   \<and> strptime_with_tz sample_env (isoformat sample_env (last_modified file_C)) = Inr time_A
   \<and> map (watermark ''orders'') (state_msgs
         (out (snd (sync_stream sample_env sample_config world0 sample_table sample_stream))))
       = [Some ''2020-02-01T00:00:00+00:00'', Some ''2020-02-01T00:00:00+00:00'',
          Some ''2020-03-01T00:00:00+00:00'']
   \<and> watermark ''orders''
         (st (snd (sync_stream sample_env sample_config world0 sample_table sample_stream)))
       = Some ''2020-03-01T00:00:00+00:00''
   \<and> epoch_us (last_modified file_A) \<le> epoch_us (last_modified file_B)
   \<and> (\<exists>since'. modified_since_of sample_env sample_config
                    (st (snd (sync_stream sample_env sample_config world0 sample_table sample_stream)))
                    ''orders'' = Inr since'
            \<and> epoch_us time_start \<le> epoch_us since')"
proof -
  define run where "run = sync_stream sample_env sample_config world0 sample_table sample_stream"
  have h: "sync_stream sample_env sample_config world0 sample_table sample_stream
             = (Inr 3, snd run)"
    using sample_run by (simp add: run_def prod_eq_iff)
  have selector:
    "\<forall>f\<in>set [file_B, file_A, file_C]. epoch_us time_start < epoch_us (last_modified f)"
    by (simp add: sample_defs epoch_us_def)
  have roundtrip: "\<forall>f\<in>set [file_B, file_A, file_C].
       isoformat sample_env (last_modified f) \<noteq> []
       \<and> (\<exists>d. strptime_with_tz sample_env (isoformat sample_env (last_modified f)) = Inr d
              \<and> epoch_us d = epoch_us (last_modified f))"
    by (simp add: sample_defs)
  have uniform: "\<forall>f\<in>set [file_B, file_A, file_C]. utcoffset_us (last_modified f) = 0"
    by (simp add: sample_defs)
  have iso: "isoformat sample_env (last_modified (last [file_A, file_C, file_B]))
               = ''2020-03-01T00:00:00+00:00''"
    by (simp add: sample_defs)
  have lastB: "last [file_A, file_C, file_B] = file_B" by simp
  have ne: "[file_B, file_A, file_C] \<noteq> []" by simp
  note inst = watermark_is_last_file_and_monotone
         [OF sample_table_name sample_since_start(1) sample_listing sample_wall_key h,
          where off = 0]
  from inst ne selector roundtrip uniform
  have a: "watermark ''orders'' (st (snd run))
          = Some (isoformat sample_env (last_modified (last (sorted_files [file_B, file_A, file_C]))))"
    and b: "\<exists>since'. modified_since_of sample_env sample_config (st (snd run)) ''orders'' = Inr since'
            \<and> epoch_us time_start \<le> epoch_us since'"
    and c: "\<forall>f\<in>set [file_B, file_A, file_C]. epoch_us (last_modified f)
                  \<le> epoch_us (last_modified (last (sorted_files [file_B, file_A, file_C])))"
    by blast+
  from c have c': "epoch_us (last_modified file_A) \<le> epoch_us (last_modified file_B)"
    unfolding sample_sorted lastB by simp
  have d: "map (watermark ''orders'') (state_msgs (out (snd run)))
       = [Some ''2020-02-01T00:00:00+00:00'', Some ''2020-02-01T00:00:00+00:00'',
          Some ''2020-03-01T00:00:00+00:00'']"
    by (simp add: run_def run_defs sample_defs Let_def watermark_def)
  have facts: "epoch_us time_start < epoch_us (last_modified file_A)"
    "epoch_us time_start < epoch_us (last_modified file_B)"
    "epoch_us time_start < epoch_us (last_modified file_C)"
    "strptime_with_tz sample_env (isoformat sample_env (last_modified file_A)) = Inr time_A"
    "strptime_with_tz sample_env (isoformat sample_env (last_modified file_B)) = Inr time_B"
    "strptime_with_tz sample_env (isoformat sample_env (last_modified file_C)) = Inr time_A"
    by (simp_all add: sample_defs epoch_us_def)
  from a b c' d facts sample_table_name sample_since_start(1) sample_listing sample_run
  show ?thesis unfolding run_def sample_sorted iso by blast
qed

text \<open>
  Claim C3. Take a listing whose datetimes Python's comparison orders as some integer
  key does, let the files sorted before \<open>f\<close> have been synced and committed, and let
  streaming \<open>f\<close> fault with \<open>x\<close> after the records \<open>coerced\<close>: a storage read fault, a
  decoding fault of the module or of its iterator, or a fault of the transformation. Then
  the table sync raises \<open>x\<close>. The records of \<open>f\<close> coerced before the fault are on the
  output channel, no state message follows them, and the state object and the state
  messages hold the watermarks of the files before \<open>f\<close>, nothing else.
\<close>

theorem fault_aborts_without_commit:
  assumes tn: "tspec ''table_name'' = Some t"
    and since: "modified_since_of e cfg (st w) t = Inr since"
    and listing: "get_input_files_for_table e cfg tspec since = Inr s3_files"
    and cmp: "compares_as k s3_files"
    and split: "sorted_files s3_files = before @ f # rest"
    and completed: "sync_files e cfg tspec strm t before 0 (listing_logged t since w) = (Inr n, wm)"
    and fault: "streaming_fault e cfg tspec strm f x coerced"
  shows "\<exists>w'. sync_stream e cfg w tspec strm = (Inl x, w')
     \<and> out w' = out wm @ map (\<lambda>tw. RECORD (message_of t (last_modified f) tw)) coerced
     \<and> st w' = st wm
     \<and> (\<exists>new. state_msgs (out w') = state_msgs (out w) @ new
           \<and> map (watermark t) new = map (\<lambda>g. Some (isoformat e (last_modified g))) before
           \<and> st w' = last (st w # new))
     \<and> watermark t (st w') =
          (if before = [] then watermark t (st w) else Some (isoformat e (last_modified (last before))))"
proof -
  define w2 where "w2 = listing_logged t since w"
  from sync_table_file_fault [OF tn fault, of wm] obtain wf where
    fl: "sync_table_file e cfg (key f) tspec strm (last_modified f) wm = (Inl x, wf)"
    and out_wf: "out wf = out wm @ map (\<lambda>tw. RECORD (message_of t (last_modified f) tw)) coerced"
    and st_wf: "st wf = st wm"
    by blast
  have loop: "sync_files e cfg tspec strm t (sorted_files s3_files) 0 w2 = (Inl x, wf)"
    unfolding split sync_files_append using completed fl by (simp add: w2_def)
  have run: "sync_stream e cfg w tspec strm = (Inl x, wf)"
    using tn since listing loop
    by (simp add: sync_stream_def Let_def w2_def listing_logged_def LOGGER_info_def)
  from sync_files_trace [OF completed] have
    c: "state_msgs (out wm) = state_msgs (out w) @ commits e t (st w) before"
    and d: "st wm = last (st w # commits e t (st w) before)"
    by (auto simp: listing_logged_world)
  define new where "new = commits e t (st w) before"
  have 1: "state_msgs (out wf) = state_msgs (out w) @ new"
    by (simp add: out_wf state_msgs_append state_msgs_map_RECORD_of c new_def)
  have 2: "map (watermark t) new = map (\<lambda>g. Some (isoformat e (last_modified g))) before"
    by (simp add: new_def watermark_commits)
  have 3: "st wf = last (st w # new)"
    by (simp add: st_wf d new_def)
  have 4: "watermark t (st wf) =
          (if before = [] then watermark t (st w) else Some (isoformat e (last_modified (last before))))"
    using 3 last_commits_watermark [of before t "st w" e] by (simp add: new_def)
  from run out_wf st_wf 1 2 3 4 show ?thesis by blast
qed

theorem fault_aborts_without_commit_witness:
  "broken_table ''table_name'' = Some ''broken''
   \<and> modified_since_of sample_env sample_config (st world0) ''broken'' = Inr time_start
   \<and> get_input_files_for_table sample_env sample_config broken_table time_start
       = Inr [file_B, file_bad, file_A]
   \<and> sorted_files [file_B, file_bad, file_A] = [file_A] @ file_bad # [file_B]
   \<and> fst (sync_files sample_env sample_config broken_table sample_stream ''broken'' [file_A] 0
             (listing_logged ''broken'' time_start world0)) = Inr 1
   \<and> transform sample_env
         [(''id'', PStr ''x''), (''_sdc_source_bucket'', PStr ''my-bucket''),
          (''_sdc_source_file'', PStr ''bad.csv''), (''_sdc_source_lineno'', PInt 3)]
         (PDict []) (PList []) = Inl (Raised ''SchemaMismatch'')
   \<and> fst (sync_stream sample_env sample_config world0 broken_table sample_stream)
       = Inl (Raised ''SchemaMismatch'')
   \<and> length (record_msgs
         (out (snd (sync_stream sample_env sample_config world0 broken_table sample_stream)))) = 2
   \<and> map (watermark ''broken'') (state_msgs
         (out (snd (sync_stream sample_env sample_config world0 broken_table sample_stream))))
       = [Some ''2020-02-01T00:00:00+00:00'']
   \<and> watermark ''broken''
         (st (snd (sync_stream sample_env sample_config world0 broken_table sample_stream)))
       = Some ''2020-02-01T00:00:00+00:00''"
proof -
  define run where "run = sync_stream sample_env sample_config world0 broken_table sample_stream"
  define prefix where
    "prefix = sync_files sample_env sample_config broken_table sample_stream ''broken'' [file_A] 0
                (listing_logged ''broken'' time_start world0)"
  have split: "sorted_files [file_B, file_bad, file_A] = [file_A] @ file_bad # [file_B]"
    by (simp add: broken_sorted)
  have p: "fst prefix = Inr 1"
    by (simp add: prefix_def listing_logged_def run_defs sample_defs Let_def)
  then have completed:
    "sync_files sample_env sample_config broken_table sample_stream ''broken'' [file_A] 0
       (listing_logged ''broken'' time_start world0) = (Inr 1, snd prefix)"
    by (simp add: prefix_def prod_eq_iff)
  from fault_aborts_without_commit
         [OF broken_table_name broken_since broken_listing broken_wall_key split completed
             bad_streaming_fault]
  obtain w' where
    r: "run = (Inl (Raised ''SchemaMismatch''), w')"
    and out_w': "out w' = out (snd prefix) @ map (\<lambda>tw. RECORD (message_of ''broken'' (last_modified file_bad) tw))
       [[(''id'', PStr ''4''), (''_sdc_source_bucket'', PStr ''my-bucket''),
         (''_sdc_source_file'', PStr ''bad.csv''), (''_sdc_source_lineno'', PInt 2)]]"
    and wm: "watermark ''broken'' (st w') =
          (if [file_A] = [] then watermark ''broken'' (st world0)
           else Some (isoformat sample_env (last_modified (last [file_A]))))"
    and new: "\<exists>new. state_msgs (out w') = state_msgs (out world0) @ new
           \<and> map (watermark ''broken'') new
               = map (\<lambda>g. Some (isoformat sample_env (last_modified g))) [file_A]"
    unfolding run_def by blast
  from r have fst_run: "fst run = Inl (Raised ''SchemaMismatch'')" and snd_run: "snd run = w'"
    by simp_all
  from wm have a: "watermark ''broken'' (st (snd run)) = Some ''2020-02-01T00:00:00+00:00''"
    by (simp add: snd_run sample_defs)
  from new have b: "map (watermark ''broken'') (state_msgs (out (snd run)))
       = [Some ''2020-02-01T00:00:00+00:00'']"
    by (auto simp: snd_run sample_defs)
  have pre: "length (record_msgs (out (snd prefix))) = 1"
    by (simp add: prefix_def listing_logged_def run_defs sample_defs Let_def)
  from out_w' pre have c: "length (record_msgs (out (snd run))) = 2"
    by (simp add: snd_run record_msgs_append)
  have t: "transform sample_env
         [(''id'', PStr ''x''), (''_sdc_source_bucket'', PStr ''my-bucket''),
          (''_sdc_source_file'', PStr ''bad.csv''), (''_sdc_source_lineno'', PInt 3)]
         (PDict []) (PList []) = Inl (Raised ''SchemaMismatch'')"
    by (simp add: sample_env_def dict_get_def)
  from broken_table_name broken_since broken_listing split p t fst_run a b c
  show ?thesis unfolding run_def prefix_def by blast
qed

text \<open>
  Claim C4. Every record message a file sync writes carries, under \<^verbatim>\<open>sequence\<close>, the
  integer \<^verbatim>\<open>int(last_modified.timestamp())\<close> of the file it was called for, whatever
  the decoder yields and the transformer returns, and whether the file sync returns or
  raises: all records of one file share the one value.
\<close>

theorem sequence_is_file_timestamp:
  assumes "sync_table_file e cfg s3_path tspec strm lm w = (r, w')"
  shows "\<exists>ms. out w' = out w @ map RECORD ms
           \<and> (\<forall>m\<in>set ms. dict_get ''sequence'' m = Some (PInt (timestamp_int lm)))"
proof -
  from sync_table_file_trace [OF assms] obtain ms where
    "out w' = out w @ map RECORD ms"
    "\<forall>m\<in>set ms. \<exists>to_write. m = message_of (the (tspec ''table_name'')) lm to_write"
    by blast
  then show ?thesis
    by (intro exI [of _ ms]) (auto simp: message_of_sequence)
qed

theorem sequence_is_file_timestamp_witness:
  "fst (sync_table_file sample_env sample_config ''b.csv'' sample_table sample_stream time_B world0) = Inr 2
   \<and> (\<exists>ms. out (snd (sync_table_file sample_env sample_config ''b.csv'' sample_table sample_stream
                       time_B world0)) = out world0 @ map RECORD ms
         \<and> length ms = 2
         \<and> (\<forall>m\<in>set ms. dict_get ''sequence'' m = Some (PInt 1583020800)))"
proof -
  define run where
    "run = sync_table_file sample_env sample_config ''b.csv'' sample_table sample_stream time_B world0"
  have r: "fst run = Inr 2"
    by (simp add: run_def run_defs sample_defs Let_def)
  have "sync_table_file sample_env sample_config ''b.csv'' sample_table sample_stream time_B world0
          = (fst run, snd run)"
    by (simp add: run_def)
  from sequence_is_file_timestamp [OF this] obtain ms where
    ms: "out (snd run) = out world0 @ map RECORD ms"
      "\<forall>m\<in>set ms. dict_get ''sequence'' m = Some (PInt (timestamp_int time_B))"
    by blast
  have "length (record_msgs (out (snd run))) = 2"
    by (simp add: run_def run_defs sample_defs Let_def)
  with ms(1) have "length ms = 2"
    by (simp add: record_msgs_append record_msgs_map_RECORD world0_def)
  moreover have "timestamp_int time_B = 1583020800"
    by (rule sample_timestamps)
  ultimately show ?thesis
    using r ms unfolding run_def by auto
qed

text \<open>
  Claim C5. In a file sync the \<open>N\<close>th message written (\<open>N \<ge> 1\<close>) is the serialisation
  of the coerced merge of the \<open>N\<close>th row that the resolved module's iterator yields for
  the file, and that merge carries the line number \<open>N + 1\<close>: the count starts at zero
  and the stamp is the count plus two.
\<close>

theorem nth_row_line_number:
  assumes run: "sync_table_file e cfg s3_path tspec strm lm w = (r, w')"
    and N: "1 \<le> N" "N \<le> length (record_msgs (out w')) - length (record_msgs (out w))"
  shows "\<exists>bucket table_name h m it.
       cfg ''bucket'' = Some bucket \<and> tspec ''table_name'' = Some table_name
     \<and> get_file_handle e cfg s3_path = Inr h
     \<and> fst (resolve_encoding_module e cfg (LOGGER_info (Syncing_file s3_path) w)) = Inr m
     \<and> m h tspec = Inr it
     \<and> N \<le> length (rows_of it)
     \<and> dict_get (SDC_SOURCE_LINENO_COLUMN e)
          (merged_rec e bucket s3_path (N - 1) (rows_of it ! (N - 1))) = Some (PInt (int N + 1))
     \<and> (\<exists>to_write.
           transform_rec e strm (merged_rec e bucket s3_path (N - 1) (rows_of it ! (N - 1)))
             = Inr to_write
           \<and> record_msgs (out w') ! (length (record_msgs (out w)) + (N - 1))
             = message_of table_name lm to_write)"
proof -
  from N have "out w' \<noteq> out w" by auto
  with sync_table_file_cases [OF run] obtain bucket table_name h m w2 it where
    pre: "cfg ''bucket'' = Some bucket" "tspec ''table_name'' = Some table_name"
      "get_file_handle e cfg s3_path = Inr h"
      "resolve_encoding_module e cfg (LOGGER_info (Syncing_file s3_path) w) = (Inr m, w2)"
      "m h tspec = Inr it"
    and w2: "out w2 = out w"
    and rows: "sync_rows e bucket s3_path table_name strm lm it 0 w2 = (r, w')"
    by blast
  from N w2 have N2: "N \<le> length (record_msgs (out w')) - length (record_msgs (out w2))"
    by simp
  from sync_rows_line_numbers [OF rows N(1) N2] pre w2 show ?thesis
    by (intro exI [of _ bucket] exI [of _ table_name] exI [of _ h] exI [of _ m] exI [of _ it])
       simp
qed

theorem nth_row_line_number_witness:
  "fst (sync_table_file sample_env sample_config ''b.csv'' sample_table sample_stream time_B world0)
     = Inr 2
   \<and> (1::nat) \<le> 2
   \<and> 2 \<le> length (record_msgs (out (snd (sync_table_file sample_env sample_config ''b.csv''
                sample_table sample_stream time_B world0)))) - length (record_msgs (out world0))
   \<and> record_msgs (out (snd (sync_table_file sample_env sample_config ''b.csv''
                sample_table sample_stream time_B world0))) ! 1
       = message_of ''orders'' time_B
           [(''id'', PStr ''3''), (''_sdc_source_bucket'', PStr ''my-bucket''),
            (''_sdc_source_file'', PStr ''b.csv''), (''_sdc_source_lineno'', PInt 3)]
   \<and> (\<exists>it. singer_encodings_csv sample_env ''b.csv'' sample_table = Inr it
         \<and> 2 \<le> length (rows_of it)
         \<and> dict_get ''_sdc_source_lineno''
               (merged_rec sample_env ''my-bucket'' ''b.csv'' (2 - 1) (rows_of it ! (2 - 1)))
             = Some (PInt (int 2 + 1)))"
proof -
  define run where
    "run = sync_table_file sample_env sample_config ''b.csv'' sample_table sample_stream time_B world0"
  have r: "fst run = Inr 2"
    by (simp add: run_def run_defs sample_defs Let_def)
  have msgs: "record_msgs (out (snd run))
      = [message_of ''orders'' time_B
           [(''id'', PStr ''2''), (''_sdc_source_bucket'', PStr ''my-bucket''),
            (''_sdc_source_file'', PStr ''b.csv''), (''_sdc_source_lineno'', PInt 2)],
         message_of ''orders'' time_B
           [(''id'', PStr ''3''), (''_sdc_source_bucket'', PStr ''my-bucket''),
            (''_sdc_source_file'', PStr ''b.csv''), (''_sdc_source_lineno'', PInt 3)]]"
    by (simp add: run_def run_defs sample_defs Let_def)
  have h1: "sync_table_file sample_env sample_config ''b.csv'' sample_table sample_stream time_B world0
          = (fst run, snd run)"
    by (simp add: run_def)
  have h2: "(1::nat) \<le> 2" by simp
  have h3: "2 \<le> length (record_msgs (out (snd run))) - length (record_msgs (out world0))"
    by (simp add: msgs world0_def)
  from nth_row_line_number [OF h1 h2 h3] obtain bucket table_name h m it where
    pre: "sample_config ''bucket'' = Some bucket"
      "get_file_handle sample_env sample_config ''b.csv'' = Inr h"
      "fst (resolve_encoding_module sample_env sample_config
             (LOGGER_info (Syncing_file ''b.csv'') world0)) = Inr m"
      "m h sample_table = Inr it"
    and rows: "2 \<le> length (rows_of it)"
    and ln: "dict_get (SDC_SOURCE_LINENO_COLUMN sample_env)
          (merged_rec sample_env bucket ''b.csv'' (2 - 1) (rows_of it ! (2 - 1)))
        = Some (PInt (int 2 + 1))"
    by blast
  from pre(1) have bucket: "bucket = ''my-bucket''"
    by (simp add: sample_config_def)
  from pre(2) have handle: "h = ''b.csv''"
    by (simp add: sample_env_def)
  from pre(3) have m: "m = singer_encodings_csv sample_env"
    by (simp add: resolve_encoding_module_def sample_config_def)
  have l: "SDC_SOURCE_LINENO_COLUMN sample_env = ''_sdc_source_lineno''"
    by (simp add: sample_env_def)
  from pre(4) rows ln
  have "\<exists>it. singer_encodings_csv sample_env ''b.csv'' sample_table = Inr it
         \<and> 2 \<le> length (rows_of it)
         \<and> dict_get ''_sdc_source_lineno''
               (merged_rec sample_env ''my-bucket'' ''b.csv'' (2 - 1) (rows_of it ! (2 - 1)))
             = Some (PInt (int 2 + 1))"
    unfolding bucket handle m l by blast
  with r h2 h3 msgs show ?thesis unfolding run_def by simp
qed

text \<open>
  Claim C6. Merging a decoded row with the three reserved fields never fails (the merge
  is a total function) and gives every reserved name its reserved value, whatever the
  row held under that name; every other field keeps the row's value. The three reserved
  names are constants of the storage module, taken here to be pairwise different.
\<close>

theorem reserved_fields_win:
  assumes "distinct [SDC_SOURCE_BUCKET_COLUMN e, SDC_SOURCE_FILE_COLUMN e, SDC_SOURCE_LINENO_COLUMN e]"
  shows "dict_get (SDC_SOURCE_BUCKET_COLUMN e) (merged_rec e bucket s3_path n row) = Some (PStr bucket)
     \<and> dict_get (SDC_SOURCE_FILE_COLUMN e) (merged_rec e bucket s3_path n row) = Some (PStr s3_path)
     \<and> dict_get (SDC_SOURCE_LINENO_COLUMN e) (merged_rec e bucket s3_path n row) = Some (PInt (int n + 2))
     \<and> (\<forall>k. k \<notin> {SDC_SOURCE_BUCKET_COLUMN e, SDC_SOURCE_FILE_COLUMN e, SDC_SOURCE_LINENO_COLUMN e}
            \<longrightarrow> dict_get k (merged_rec e bucket s3_path n row) = dict_get k row)"
  using assms
  by (simp add: merged_rec_def dict_get_merge custom_columns_distinct dict_get_Cons dict_get_Nil)

theorem reserved_fields_win_witness:
  "distinct [SDC_SOURCE_BUCKET_COLUMN sample_env, SDC_SOURCE_FILE_COLUMN sample_env,
             SDC_SOURCE_LINENO_COLUMN sample_env]
   \<and> merged_rec sample_env ''my-bucket'' ''a.csv'' 0
        [(''_sdc_source_file'', PStr ''forged''), (''id'', PStr ''1''), (''_sdc_source_lineno'', PNone)]
     = [(''_sdc_source_file'', PStr ''a.csv''), (''id'', PStr ''1''), (''_sdc_source_lineno'', PInt 2),
        (''_sdc_source_bucket'', PStr ''my-bucket'')]
   \<and> dict_get ''_sdc_source_file'' (merged_rec sample_env ''my-bucket'' ''a.csv'' 0
        [(''_sdc_source_file'', PStr ''forged''), (''id'', PStr ''1''), (''_sdc_source_lineno'', PNone)])
     = Some (PStr ''a.csv'')
   \<and> dict_get ''id'' (merged_rec sample_env ''my-bucket'' ''a.csv'' 0
        [(''_sdc_source_file'', PStr ''forged''), (''id'', PStr ''1''), (''_sdc_source_lineno'', PNone)])
     = Some (PStr ''1'')"
proof -
  have d: "distinct [SDC_SOURCE_BUCKET_COLUMN sample_env, SDC_SOURCE_FILE_COLUMN sample_env,
             SDC_SOURCE_LINENO_COLUMN sample_env]"
    by (simp add: sample_env_def)
  have m: "merged_rec sample_env ''my-bucket'' ''a.csv'' 0
        [(''_sdc_source_file'', PStr ''forged''), (''id'', PStr ''1''), (''_sdc_source_lineno'', PNone)]
     = [(''_sdc_source_file'', PStr ''a.csv''), (''id'', PStr ''1''), (''_sdc_source_lineno'', PInt 2),
        (''_sdc_source_bucket'', PStr ''my-bucket'')]"
    by (simp add: merged_rec_def custom_columns_def dict_merge_def dict_set_def sample_env_def)
  from reserved_fields_win [OF d, of "''my-bucket''" "''a.csv''" 0
      "[(''_sdc_source_file'', PStr ''forged''), (''id'', PStr ''1''), (''_sdc_source_lineno'', PNone)]"]
  show ?thesis using d m by (simp add: sample_env_def dict_get_Cons)
qed

text \<open>
  Claim C7. When the configuration names an encoding module and importing it raises
  \<open>ModuleNotFoundError\<close>, resolving the decoder does not raise: it logs one warning and
  yields the default module. The file sync then returns or raises exactly what it would
  if the named module had been the default one, and writes the same messages.
\<close>

theorem missing_module_falls_back:
  assumes named: "cfg ''encoding_module'' = Some name"
    and missing: "import_module e name = Inl (ModuleNotFoundError x)"
  shows "resolve_encoding_module e cfg w
           = (Inr (singer_encodings_csv e),
              w\<lparr>imports_requested := imports_requested w @ [name],
                log := log w @ [Warning (Failed_to_load_encoding_module name)]\<rparr>)
     \<and> fst (sync_table_file e cfg s3_path tspec strm lm w)
         = fst (sync_table_file (e\<lparr>import_module := \<lambda>_. Inr (singer_encodings_csv e)\<rparr>)
                  cfg s3_path tspec strm lm w)
     \<and> out (snd (sync_table_file e cfg s3_path tspec strm lm w))
         = out (snd (sync_table_file (e\<lparr>import_module := \<lambda>_. Inr (singer_encodings_csv e)\<rparr>)
                  cfg s3_path tspec strm lm w))"
proof -
  define e' where "e' = e\<lparr>import_module := \<lambda>_. Inr (singer_encodings_csv e)\<rparr>"
  define w1 where "w1 = LOGGER_info (Syncing_file s3_path) w"
  define wB where "wB = w1\<lparr>imports_requested := imports_requested w1 @ [name]\<rparr>"
  define wA where "wA = wB\<lparr>log := log w1 @ [Warning (Failed_to_load_encoding_module name)]\<rparr>"
  have res: "resolve_encoding_module e cfg w
           = (Inr (singer_encodings_csv e),
              w\<lparr>imports_requested := imports_requested w @ [name],
                log := log w @ [Warning (Failed_to_load_encoding_module name)]\<rparr>)" for w
    using named missing by (simp add: resolve_encoding_module_def LOGGER_warning_def)
  have resA: "resolve_encoding_module e cfg w1 = (Inr (singer_encodings_csv e), wA)"
    by (simp add: res wA_def wB_def)
  have resB: "resolve_encoding_module e' cfg w1 = (Inr (singer_encodings_csv e), wB)"
    using named by (simp add: resolve_encoding_module_def e'_def wB_def)
  have same: "get_file_handle e' = get_file_handle e" "out wA = out wB"
    by (simp_all add: e'_def wA_def)
  have rows: "fst (sync_rows e bucket s3_path table_name strm lm it 0 wA)
                = fst (sync_rows e' bucket s3_path table_name strm lm it 0 wB)
      \<and> out (snd (sync_rows e bucket s3_path table_name strm lm it 0 wA))
                = out (snd (sync_rows e' bucket s3_path table_name strm lm it 0 wB))"
    for bucket table_name it
    unfolding e'_def sync_rows_import_module wA_def by (simp add: sync_rows_log)
  have "fst (sync_table_file e cfg s3_path tspec strm lm w)
          = fst (sync_table_file e' cfg s3_path tspec strm lm w)
      \<and> out (snd (sync_table_file e cfg s3_path tspec strm lm w))
          = out (snd (sync_table_file e' cfg s3_path tspec strm lm w))"
  proof (cases "cfg ''bucket''")
    case None
    then show ?thesis by (simp add: sync_table_file_def)
  next
    case bucket: (Some bucket)
    show ?thesis
    proof (cases "tspec ''table_name''")
      case None
      with bucket show ?thesis by (simp add: sync_table_file_def)
    next
      case tn: (Some table_name)
      show ?thesis
      proof (cases "get_file_handle e cfg s3_path")
        case (Inl y)
        with bucket tn show ?thesis by (simp add: sync_table_file_def same)
      next
        case handle: (Inr h)
        show ?thesis
        proof (cases "singer_encodings_csv e h tspec")
          case (Inl y)
          with bucket tn handle show ?thesis
            by (simp add: sync_table_file_def same resA resB w1_def [symmetric])
        next
          case (Inr it)
          with bucket tn handle rows [of bucket table_name it] show ?thesis
            by (simp add: sync_table_file_def same resA resB w1_def [symmetric])
        qed
      qed
    qed
  qed
  with res show ?thesis unfolding e'_def by blast
qed

theorem missing_module_falls_back_witness:
  "sample_config_override ''encoding_module'' = Some ''no.such.module''
   \<and> import_module sample_env ''no.such.module'' = Inl (ModuleNotFoundError ''no.such.module'')
   \<and> fst (resolve_encoding_module sample_env sample_config_override world0)
       = Inr (singer_encodings_csv sample_env)
   \<and> log (snd (sync_table_file sample_env sample_config_override ''a.csv'' sample_table
                   sample_stream time_A world0))
       = [Info (Syncing_file ''a.csv''), Warning (Failed_to_load_encoding_module ''no.such.module'')]
   \<and> fst (sync_table_file (sample_env\<lparr>import_module := \<lambda>_. Inr (singer_encodings_csv sample_env)\<rparr>)
              sample_config_override ''a.csv'' sample_table sample_stream time_A world0) = Inr 1
   \<and> fst (sync_table_file sample_env sample_config_override ''a.csv'' sample_table
              sample_stream time_A world0) = Inr 1"
proof -
  have named: "sample_config_override ''encoding_module'' = Some ''no.such.module''"
    by (simp add: sample_config_override_def)
  have missing:
    "import_module sample_env ''no.such.module'' = Inl (ModuleNotFoundError ''no.such.module'')"
    by (simp add: sample_env_def)
  have lg: "log (snd (sync_table_file sample_env sample_config_override ''a.csv'' sample_table
                   sample_stream time_A world0))
       = [Info (Syncing_file ''a.csv''), Warning (Failed_to_load_encoding_module ''no.such.module'')]"
    by (simp add: run_defs sample_defs Let_def)
  have dflt: "fst (sync_table_file
              (sample_env\<lparr>import_module := \<lambda>_. Inr (singer_encodings_csv sample_env)\<rparr>)
              sample_config_override ''a.csv'' sample_table sample_stream time_A world0) = Inr 1"
    by (simp add: run_defs sample_defs Let_def)
  from missing_module_falls_back
         [where e = sample_env and cfg = sample_config_override and name = "''no.such.module''"
            and x = "''no.such.module''" and w = world0 and ?s3_path = "''a.csv''"
            and tspec = sample_table and strm = sample_stream and lm = time_A,
          OF named missing]
  have "fst (resolve_encoding_module sample_env sample_config_override world0)
          = Inr (singer_encodings_csv sample_env)"
    and "fst (sync_table_file sample_env sample_config_override ''a.csv'' sample_table
              sample_stream time_A world0)
          = fst (sync_table_file
              (sample_env\<lparr>import_module := \<lambda>_. Inr (singer_encodings_csv sample_env)\<rparr>)
              sample_config_override ''a.csv'' sample_table sample_stream time_A world0)"
    by simp_all
  with named missing lg dflt show ?thesis by simp
qed

text \<open>
  Claim C8, as stated, fails. The claim puts the sequence inside the record object:
  \<^verbatim>\<open>{type, stream, record: {<fields...>, sequence}}\<close>. In the sample run the one message
  of \<open>a.csv\<close> has its sequence beside the record object, which holds no sequence.
\<close>

theorem sequence_nested_in_record_counterexample:
  "record_msgs (out (snd (sync_table_file sample_env sample_config ''a.csv'' sample_table
       sample_stream time_A world0)))
     = [[(''type'', PStr ''RECORD''), (''stream'', PStr ''orders''),
         (''record'', PDict [(''id'', PStr ''1''), (''_sdc_source_bucket'', PStr ''my-bucket''),
                             (''_sdc_source_file'', PStr ''a.csv''), (''_sdc_source_lineno'', PInt 2)]),
         (''sequence'', PInt 1580515200)]]
   \<and> dict_get ''sequence'' [(''id'', PStr ''1''), (''_sdc_source_bucket'', PStr ''my-bucket''),
                             (''_sdc_source_file'', PStr ''a.csv''), (''_sdc_source_lineno'', PInt 2)]
     = None"
  by (simp add: run_defs sample_defs Let_def)

text \<open>
  Claim C8, amended. Every message a file sync writes serialises to a dictionary of
  exactly four keys in this order: \<^verbatim>\<open>type\<close> (\<^verbatim>\<open>"RECORD"\<close>), \<^verbatim>\<open>stream\<close> (the table
  name), \<^verbatim>\<open>record\<close> and, at the top level beside them, the integer \<^verbatim>\<open>sequence\<close>. The
  record object is what the transformer returned for the merged row of that message,
  untouched: the sequence is not put into it.
\<close>

theorem message_shape:
  assumes "sync_table_file e cfg s3_path tspec strm lm w = (r, w')"
  shows "\<exists>ms. out w' = out w @ map RECORD ms
           \<and> (\<forall>i<length ms. \<exists>bucket row schema md to_write.
                 cfg ''bucket'' = Some bucket
               \<and> strm ''schema'' = Some schema \<and> strm ''metadata'' = Some md
               \<and> transform e (merged_rec e bucket s3_path i row) schema md = Inr to_write
               \<and> ms ! i = [(''type'', PStr ''RECORD''),
                            (''stream'', PStr (the (tspec ''table_name''))),
                            (''record'', PDict to_write),
                            (''sequence'', PInt (timestamp_int lm))])"
proof -
  from sync_table_file_cases [OF assms] show ?thesis
  proof (elim disjE exE conjE)
    assume "out w' = out w"
    then show ?thesis by (intro exI [of _ "[]"]) simp
  next
    fix bucket table_name h m w2 it
    assume bucket: "cfg ''bucket'' = Some bucket" and tn: "tspec ''table_name'' = Some table_name"
      and w2: "out w2 = out w"
      and rows: "sync_rows e bucket s3_path table_name strm lm it 0 w2 = (r, w')"
    from sync_rows_trace [OF rows] obtain ms where
      w': "w' = w2\<lparr>out := out w2 @ map RECORD ms\<rparr>"
      and idx: "\<forall>i<length ms. \<exists>to_write. i < length (rows_of it) \<and>
          transform_rec e strm (merged_rec e bucket s3_path (0 + i) (rows_of it ! i)) = Inr to_write
          \<and> ms ! i = message_of table_name lm to_write"
      by blast
    have "\<exists>bucket row schema md to_write.
                 cfg ''bucket'' = Some bucket
               \<and> strm ''schema'' = Some schema \<and> strm ''metadata'' = Some md
               \<and> transform e (merged_rec e bucket s3_path i row) schema md = Inr to_write
               \<and> ms ! i = [(''type'', PStr ''RECORD''),
                            (''stream'', PStr (the (tspec ''table_name''))),
                            (''record'', PDict to_write),
                            (''sequence'', PInt (timestamp_int lm))]"
      if "i < length ms" for i
    proof -
      from idx that obtain to_write where
        t: "transform_rec e strm (merged_rec e bucket s3_path i (rows_of it ! i)) = Inr to_write"
        and m: "ms ! i = message_of table_name lm to_write"
        by auto
      from t obtain schema md where
        "strm ''schema'' = Some schema" "strm ''metadata'' = Some md"
        "transform e (merged_rec e bucket s3_path i (rows_of it ! i)) schema md = Inr to_write"
        by (auto simp: transform_rec_def split: option.splits)
      with bucket tn m show ?thesis
        by (auto simp: message_of_shape)
    qed
    with w' w2 show ?thesis by (intro exI [of _ ms]) simp
  qed
qed

theorem message_shape_witness:
  "fst (sync_table_file sample_env sample_config ''a.csv'' sample_table sample_stream time_A world0) = Inr 1
   \<and> transform sample_env
         [(''id'', PStr ''1''), (''_sdc_source_bucket'', PStr ''my-bucket''),
          (''_sdc_source_file'', PStr ''a.csv''), (''_sdc_source_lineno'', PInt 2)]
         (PDict []) (PList [])
       = Inr [(''id'', PStr ''1''), (''_sdc_source_bucket'', PStr ''my-bucket''),
              (''_sdc_source_file'', PStr ''a.csv''), (''_sdc_source_lineno'', PInt 2)]
   \<and> out (snd (sync_table_file sample_env sample_config ''a.csv'' sample_table sample_stream
                 time_A world0))
       = [RECORD [(''type'', PStr ''RECORD''), (''stream'', PStr ''orders''),
                  (''record'', PDict [(''id'', PStr ''1''), (''_sdc_source_bucket'', PStr ''my-bucket''),
                                      (''_sdc_source_file'', PStr ''a.csv''),
                                      (''_sdc_source_lineno'', PInt 2)]),
                  (''sequence'', PInt 1580515200)]]
   \<and> (\<exists>ms. out (snd (sync_table_file sample_env sample_config ''a.csv'' sample_table sample_stream
                       time_A world0)) = out world0 @ map RECORD ms
         \<and> (\<exists>bucket row schema md to_write.
               sample_config ''bucket'' = Some bucket
             \<and> sample_stream ''schema'' = Some schema \<and> sample_stream ''metadata'' = Some md
             \<and> transform sample_env (merged_rec sample_env bucket ''a.csv'' 0 row) schema md
                 = Inr to_write
             \<and> ms ! 0 = [(''type'', PStr ''RECORD''), (''stream'', PStr ''orders''),
                          (''record'', PDict to_write), (''sequence'', PInt 1580515200)]))"
proof -
  define run where
    "run = sync_table_file sample_env sample_config ''a.csv'' sample_table sample_stream time_A world0"
  have r: "fst run = Inr 1"
    by (simp add: run_def run_defs sample_defs Let_def)
  have o: "out (snd run)
       = [RECORD [(''type'', PStr ''RECORD''), (''stream'', PStr ''orders''),
                  (''record'', PDict [(''id'', PStr ''1''), (''_sdc_source_bucket'', PStr ''my-bucket''),
                                      (''_sdc_source_file'', PStr ''a.csv''),
                                      (''_sdc_source_lineno'', PInt 2)]),
                  (''sequence'', PInt 1580515200)]]"
    by (simp add: run_def run_defs sample_defs Let_def)
  have t: "transform sample_env
         [(''id'', PStr ''1''), (''_sdc_source_bucket'', PStr ''my-bucket''),
          (''_sdc_source_file'', PStr ''a.csv''), (''_sdc_source_lineno'', PInt 2)]
         (PDict []) (PList [])
       = Inr [(''id'', PStr ''1''), (''_sdc_source_bucket'', PStr ''my-bucket''),
              (''_sdc_source_file'', PStr ''a.csv''), (''_sdc_source_lineno'', PInt 2)]"
    by (simp add: sample_env_def dict_get_def)
  have "sync_table_file sample_env sample_config ''a.csv'' sample_table sample_stream time_A world0
          = (fst run, snd run)"
    by (simp add: run_def)
  from message_shape [OF this] obtain ms where
    ms: "out (snd run) = out world0 @ map RECORD ms"
    and idx: "\<forall>i<length ms. \<exists>bucket row schema md to_write.
                 sample_config ''bucket'' = Some bucket
               \<and> sample_stream ''schema'' = Some schema \<and> sample_stream ''metadata'' = Some md
               \<and> transform sample_env (merged_rec sample_env bucket ''a.csv'' i row) schema md
                   = Inr to_write
               \<and> ms ! i = [(''type'', PStr ''RECORD''),
                            (''stream'', PStr (the (sample_table ''table_name''))),
                            (''record'', PDict to_write),
                            (''sequence'', PInt (timestamp_int time_A))]"
    by blast
  from ms o have "length ms = 1"
    by (cases ms) (auto simp: world0_def)
  with idx have "\<exists>bucket row schema md to_write.
                 sample_config ''bucket'' = Some bucket
               \<and> sample_stream ''schema'' = Some schema \<and> sample_stream ''metadata'' = Some md
               \<and> transform sample_env (merged_rec sample_env bucket ''a.csv'' 0 row) schema md
                   = Inr to_write
               \<and> ms ! 0 = [(''type'', PStr ''RECORD''),
                            (''stream'', PStr (the (sample_table ''table_name''))),
                            (''record'', PDict to_write),
                            (''sequence'', PInt (timestamp_int time_A))]"
    by simp
  then have "\<exists>bucket row schema md to_write.
               sample_config ''bucket'' = Some bucket
             \<and> sample_stream ''schema'' = Some schema \<and> sample_stream ''metadata'' = Some md
             \<and> transform sample_env (merged_rec sample_env bucket ''a.csv'' 0 row) schema md
                 = Inr to_write
             \<and> ms ! 0 = [(''type'', PStr ''RECORD''), (''stream'', PStr ''orders''),
                          (''record'', PDict to_write), (''sequence'', PInt 1580515200)]"
    by (simp add: sample_timestamps sample_table_name)
  with ms r o t show ?thesis unfolding run_def by blast
qed

text \<open>
  Claim C9, as stated, fails: resolving happens inside \<open>sync_table_file\<close>, so once for
  every file. In the sample run of three files with a module named in the configuration,
  \<^verbatim>\<open>importlib.import_module\<close> is called three times.
\<close>

theorem module_lookups_counterexample:
  "fst (sync_stream sample_env sample_config_override world0 sample_table sample_stream) = Inr 3
   \<and> imports_requested (snd (sync_stream sample_env sample_config_override world0 sample_table
         sample_stream)) = [''no.such.module'', ''no.such.module'', ''no.such.module'']"
  by (simp add: run_defs sample_defs Let_def)

text \<open>
  Claim C9, amended. A table sync that returns has looked the named module up once for
  every file it listed, each time before that file's rows are streamed, and not at all
  when the configuration names no module.
\<close>

theorem one_module_lookup_per_file:
  assumes tn: "tspec ''table_name'' = Some t"
    and since: "modified_since_of e cfg (st w) t = Inr since"
    and listing: "get_input_files_for_table e cfg tspec since = Inr s3_files"
    and run: "sync_stream e cfg w tspec strm = (Inr k, w')"
  shows "imports_requested w' = imports_requested w
           @ (case cfg ''encoding_module'' of
                None \<Rightarrow> []
              | Some name \<Rightarrow> replicate (length s3_files) name)"
proof -
  from sync_stream_loop [OF tn since listing run] obtain w3 where
    loop: "sync_files e cfg tspec strm t (sorted_files s3_files) 0 (listing_logged t since w)
             = (Inr k, w3)"
    and w3: "imports_requested w' = imports_requested w3"
    by blast
  from sync_files_imports [OF loop]
  have "imports_requested w3 = imports_requested w
           @ (case cfg ''encoding_module'' of
                None \<Rightarrow> []
              | Some name \<Rightarrow> replicate (length s3_files) name)"
    by (simp add: listing_logged_world length_sorted_files split: option.splits)
  then show ?thesis by (simp only: w3)
qed

theorem one_module_lookup_per_file_witness:
  "sample_table ''table_name'' = Some ''orders''
   \<and> modified_since_of sample_env sample_config_override (st world0) ''orders'' = Inr time_start
   \<and> get_input_files_for_table sample_env sample_config_override sample_table time_start
       = Inr [file_B, file_A, file_C]
   \<and> fst (sync_stream sample_env sample_config_override world0 sample_table sample_stream) = Inr 3
   \<and> imports_requested
         (snd (sync_stream sample_env sample_config_override world0 sample_table sample_stream))
       = [''no.such.module'', ''no.such.module'', ''no.such.module'']"
proof -
  define run where
    "run = sync_stream sample_env sample_config_override world0 sample_table sample_stream"
  have r: "fst run = Inr 3"
    by (simp add: run_def run_defs sample_defs Let_def)
  have h: "sync_stream sample_env sample_config_override world0 sample_table sample_stream
             = (Inr 3, snd run)"
    using r by (simp add: run_def prod_eq_iff)
  from one_module_lookup_per_file [OF sample_table_name sample_since_start(2) sample_listing h]
  have "imports_requested (snd run)
          = [''no.such.module'', ''no.such.module'', ''no.such.module'']"
    by (simp add: world0_def sample_config_override_def numeral_3_eq_3)
  with sample_table_name sample_since_start(2) sample_listing r
  show ?thesis unfolding run_def by blast
qed

text \<open>
  Claim C10. With an empty listing the table sync returns 0 and changes nothing but the
  log: no record message, no state message, the state object as it was. In every run
  the state object is the initial one or the last state written, and it differs from the
  initial one at most in the \<^verbatim>\<open>modified_since\<close> bookmark of the table being synced.
\<close>

theorem empty_listing_and_state_frame:
  assumes tn: "tspec ''table_name'' = Some t"
    and since: "modified_since_of e cfg (st w) t = Inr since"
  shows "(get_input_files_for_table e cfg tspec since = Inr [] \<longrightarrow>
            sync_stream e cfg w tspec strm
              = (Inr 0, w\<lparr>log := log w @ [Info (Syncing_table t),
                                            Info (Getting_files_modified_since since),
                                            Info (Wrote_records 0 t)]\<rparr>))
     \<and> (\<forall>r w'. sync_stream e cfg w tspec strm = (r, w') \<longrightarrow>
           (\<exists>new. state_msgs (out w') = state_msgs (out w) @ new \<and> st w' = last (st w # new))
           \<and> (\<forall>t' k. (t', k) \<noteq> (t, ''modified_since'') \<longrightarrow>
                  get_bookmark (st w') t' k = get_bookmark (st w) t' k))"
proof (intro conjI impI allI)
  assume "get_input_files_for_table e cfg tspec since = Inr []"
  with tn since show "sync_stream e cfg w tspec strm
              = (Inr 0, w\<lparr>log := log w @ [Info (Syncing_table t),
                                            Info (Getting_files_modified_since since),
                                            Info (Wrote_records 0 t)]\<rparr>)"
    by (simp add: sync_stream_def sorted_files_def LOGGER_info_def)
next
  fix r w'
  assume run: "sync_stream e cfg w tspec strm = (r, w')"
  have both: "(\<exists>new. state_msgs (out w') = state_msgs (out w) @ new \<and> st w' = last (st w # new))
           \<and> (\<forall>t' k. (t', k) \<noteq> (t, ''modified_since'') \<longrightarrow>
                  get_bookmark (st w') t' k = get_bookmark (st w) t' k)"
  proof (cases "get_input_files_for_table e cfg tspec since")
    case (Inl x)
    with run tn since have "st w' = st w" "out w' = out w"
      by (auto simp: sync_stream_def LOGGER_info_def)
    then show ?thesis by simp
  next
    case (Inr s3_files)
    from sync_stream_loop [OF tn since Inr run] obtain w3 where
      loop: "sync_files e cfg tspec strm t (sorted_files s3_files) 0 (listing_logged t since w)
               = (r, w3)"
      and w3: "st w' = st w3" "out w' = out w3"
      by blast
    from sync_files_trace [OF loop] obtain dn where
      c: "state_msgs (out w3) = state_msgs (out w) @ commits e t (st w) dn"
      and d: "st w3 = last (st w # commits e t (st w) dn)"
      by (auto simp: listing_logged_world)
    from c d w3 show ?thesis
      by (auto simp: last_commits_other simp del: last.simps)
  qed
  from both show "\<exists>new. state_msgs (out w') = state_msgs (out w) @ new \<and> st w' = last (st w # new)"
    by blast
  fix t' k
  assume "(t', k) \<noteq> (t, ''modified_since'')"
  with both show "get_bookmark (st w') t' k = get_bookmark (st w) t' k" by blast
qed

theorem empty_listing_and_state_frame_witness:
  "sample_table ''table_name'' = Some ''orders''
   \<and> modified_since_of sample_env sample_config (st world1) ''orders'' = Inr time_B
   \<and> get_input_files_for_table sample_env sample_config sample_table time_B = Inr []
   \<and> sync_stream sample_env sample_config world1 sample_table sample_stream
       = (Inr 0, world1\<lparr>log := [Info (Syncing_table ''orders''),
                                   Info (Getting_files_modified_since time_B),
                                   Info (Wrote_records 0 ''orders'')]\<rparr>)
   \<and> out (snd (sync_stream sample_env sample_config world1 sample_table sample_stream)) = []
   \<and> st (snd (sync_stream sample_env sample_config world1 sample_table sample_stream)) = st world1"
proof -
  have since: "modified_since_of sample_env sample_config (st world1) ''orders'' = Inr time_B"
    by (simp add: modified_since_of_def get_bookmark_def sample_env_def world1_def world0_def)
  have listing: "get_input_files_for_table sample_env sample_config sample_table time_B = Inr []"
    by (simp add: sample_defs epoch_us_def)
  from empty_listing_and_state_frame
         [where e = sample_env and cfg = sample_config and w = world1 and tspec = sample_table
            and t = "''orders''" and since = time_B and strm = sample_stream,
          OF sample_table_name since] listing
  have "sync_stream sample_env sample_config world1 sample_table sample_stream
       = (Inr 0, world1\<lparr>log := log world1 @ [Info (Syncing_table ''orders''),
                                   Info (Getting_files_modified_since time_B),
                                   Info (Wrote_records 0 ''orders'')]\<rparr>)"
    by blast
  then have run: "sync_stream sample_env sample_config world1 sample_table sample_stream
       = (Inr 0, world1\<lparr>log := [Info (Syncing_table ''orders''),
                                   Info (Getting_files_modified_since time_B),
                                   Info (Wrote_records 0 ''orders'')]\<rparr>)"
    by (simp add: world1_def world0_def)
  have "out world1 = []" by (simp add: world1_def world0_def)
  with sample_table_name since listing run show ?thesis by simp
qed

end
